theory Spec2Isabelle
  imports Complex_Main "HOL-Library.Sublist"
begin

section \<open>Python values, dictionaries and exceptions\<close>

text \<open>
  The workflow state, an agent's context and an agent result's payload are Python
  dictionaries from strings to arbitrary values. A value is one of the shapes the
  repository stores in them. A float is modelled by the real number it denotes (NaN and
  the infinities are not modelled); a nested dictionary is an association list.
\<close>

datatype pyval =
    PNone
  | PBool bool
  | PInt int
  | PFloat real
  | PStr string
  | PList "pyval list"
  | PDict "(string \<times> pyval) list"

type_synonym pydict = "string \<rightharpoonup> pyval"

text \<open>
  An exception object: the name of its class, the names of the classes it inherits from,
  and the text \<open>str(e)\<close> renders. \<open>isinstance\<close> looks the class up by name.
\<close>

datatype py_exception = PyExc (exc_type: string) (exc_bases: "string list") (exc_str: string)

definition isinstance :: "py_exception \<Rightarrow> string \<Rightarrow> bool" where
  "isinstance e cls = (cls = exc_type e \<or> cls \<in> set (exc_bases e))"

definition ValueError :: "string \<Rightarrow> py_exception" where
  "ValueError msg = PyExc ''ValueError'' [''Exception'', ''BaseException''] msg"

definition TypeError :: "string \<Rightarrow> py_exception" where
  "TypeError msg = PyExc ''TypeError'' [''Exception'', ''BaseException''] msg"

definition AttributeError :: "string \<Rightarrow> py_exception" where
  "AttributeError msg = PyExc ''AttributeError'' [''Exception'', ''BaseException''] msg"

definition RuntimeError :: "string \<Rightarrow> py_exception" where
  "RuntimeError msg = PyExc ''RuntimeError'' [''Exception'', ''BaseException''] msg"

text \<open>A text in single quotes, as Python's messages quote names.\<close>

definition quoted :: "string \<Rightarrow> string" where
  "quoted s = [CHR 0x27] @ s @ [CHR 0x27]"

text \<open>\<open>str(KeyError(k))\<close> is the \<open>repr\<close> of the key: the key in single quotes.\<close>

definition KeyError :: "string \<Rightarrow> py_exception" where
  "KeyError k =
     PyExc ''KeyError'' [''LookupError'', ''Exception'', ''BaseException''] (quoted k)"

text \<open>\<open>class AgentError(Exception)\<close> of \<open>agents/base_agent.py\<close>.\<close>

definition AgentError :: "string \<Rightarrow> py_exception" where
  "AgentError msg = PyExc ''AgentError'' [''Exception'', ''BaseException''] msg"

text \<open>\<open>KeyboardInterrupt\<close> derives from \<open>BaseException\<close> only.\<close>

definition KeyboardInterrupt :: "string \<Rightarrow> py_exception" where
  "KeyboardInterrupt msg = PyExc ''KeyboardInterrupt'' [''BaseException''] msg"

text \<open>\<open>d[k]\<close> raises \<open>KeyError\<close> on a missing key; \<open>d.get(k, default)\<close> does not.\<close>

definition getitem :: "pydict \<Rightarrow> string \<Rightarrow> py_exception + pyval" where
  "getitem d k = (case d k of None \<Rightarrow> Inl (KeyError k) | Some v \<Rightarrow> Inr v)"

definition get_default :: "pydict \<Rightarrow> string \<Rightarrow> pyval \<Rightarrow> pyval" where
  "get_default d k dflt = (case d k of None \<Rightarrow> dflt | Some v \<Rightarrow> v)"

text \<open>\<open>sep.join(xs)\<close>.\<close>

fun join :: "string \<Rightarrow> string list \<Rightarrow> string" where
  "join sep [] = []"
| "join sep [x] = x"
| "join sep (x # y # ys) = x @ sep @ join sep (y # ys)"

section \<open>The result contract: \<open>AgentStatus\<close> and \<open>AgentResult\<close>\<close>

datatype AgentStatus = PENDING | RUNNING | SUCCESS | FAILED | SKIPPED

fun status_value :: "AgentStatus \<Rightarrow> string" where
  "status_value PENDING = ''pending''"
| "status_value RUNNING = ''running''"
| "status_value SUCCESS = ''success''"
| "status_value FAILED = ''failed''"
| "status_value SKIPPED = ''skipped''"

record AgentResult =
  status :: AgentStatus
  data :: pydict
  error :: "string option"
  metadata :: pydict

text \<open>
  \<open>AgentResult.__init__(status, data=None, error=None, metadata=None)\<close>: an absent (or
  empty) \<open>data\<close> or \<open>metadata\<close> becomes the empty dictionary; \<open>error\<close> is stored as
  given. The constructor checks nothing.
\<close>

definition or_empty :: "pydict option \<Rightarrow> pydict" where
  "or_empty d = (case d of None \<Rightarrow> Map.empty | Some m \<Rightarrow> m)"

definition AgentResult_init ::
  "AgentStatus \<Rightarrow> pydict option \<Rightarrow> string option \<Rightarrow> pydict option \<Rightarrow> AgentResult" where
  "AgentResult_init st d err md =
     \<lparr>status = st, data = or_empty d, error = err, metadata = or_empty md\<rparr>"

definition is_success :: "AgentResult \<Rightarrow> bool" where
  "is_success r = (status r = SUCCESS)"

section \<open>The step contract: \<open>BaseAgent\<close>\<close>

text \<open>
  \<open>BaseAgent.validate_context(context, required_keys)\<close>: collects every required key
  that is not in the context, in the order of \<open>required_keys\<close>, and raises one
  \<open>ValueError\<close> that lists them all; returns \<open>None\<close> when none is missing.
\<close>

definition missing_keys :: "pydict \<Rightarrow> string list \<Rightarrow> string list" where
  "missing_keys ctx required_keys = filter (\<lambda>key. ctx key = None) required_keys"

definition validate_context :: "string \<Rightarrow> pydict \<Rightarrow> string list \<Rightarrow> py_exception + unit" where
  "validate_context name ctx required_keys =
     (if missing_keys ctx required_keys \<noteq> []
      then Inl (ValueError (name @ '' missing required context keys: ''
                  @ join '', '' (missing_keys ctx required_keys)))
      else Inr ())"

text \<open>
  \<open>BaseAgent.run(context)\<close>: calls \<open>execute\<close>; a result is returned as it is (after
  logging); an exception caught by \<open>except Exception\<close> becomes a \<open>FAILED\<close> result with
  \<open>error = str(e)\<close> and \<open>metadata = {"exception_type": type(e).__name__}\<close>. An exception
  that is not an instance of \<open>Exception\<close> is not caught. \<open>execute\<close> is the abstract
  method: the step's own logic, which returns a result or raises.
\<close>

definition BaseAgent_run ::
  "(pydict \<Rightarrow> py_exception + AgentResult) \<Rightarrow> pydict \<Rightarrow> py_exception + AgentResult" where
  "BaseAgent_run execute ctx =
     (case execute ctx of
        Inr result \<Rightarrow> Inr result
      | Inl e \<Rightarrow>
          if isinstance e ''Exception''
          then Inr (AgentResult_init FAILED None (Some (exc_str e))
                      (Some [''exception_type'' \<mapsto> PStr (exc_type e)]))
          else Inl e)"

section \<open>The retry wrapper\<close>

text \<open>
  \<open>retry(max_attempts, delay, exponential_backoff, exceptions)\<close> of
  \<open>utils/helpers.py\<close> wraps an operation. The operation is a state transformer: given
  the state of whatever it talks to, it returns a value or raises, and leaves a new
  state. What the wrapper does besides returning is recorded in a \<open>world\<close>: the
  operation's state, how many times the operation was invoked, and the arguments of the
  calls of \<open>time.sleep\<close>, in order.
\<close>

record 's world =
  op_state :: 's
  invocations :: nat
  sleeps :: "real list"

text \<open>\<open>time.sleep(secs)\<close> raises \<open>ValueError\<close> for a negative argument.\<close>

definition time_sleep :: "real \<Rightarrow> 's world \<Rightarrow> py_exception + 's world" where
  "time_sleep secs w =
     (if secs < 0 then Inl (ValueError ''sleep length must be non-negative'')
      else Inr (w\<lparr>sleeps := sleeps w @ [secs]\<rparr>))"

text \<open>\<open>except exceptions as e\<close>, with \<open>exceptions\<close> a tuple of classes.\<close>

definition catches :: "string list \<Rightarrow> py_exception \<Rightarrow> bool" where
  "catches exceptions e = list_ex (isinstance e) exceptions"

definition invoke_op ::
  "('s \<Rightarrow> (py_exception + 'a) \<times> 's) \<Rightarrow> 's world \<Rightarrow> (py_exception + 'a) \<times> 's world" where
  "invoke_op func w =
     (case func (op_state w) of
        (r, s') \<Rightarrow> (r, w\<lparr>op_state := s', invocations := Suc (invocations w)\<rparr>))"

text \<open>
  The body of \<open>wrapper\<close>: the \<open>for attempt in range(1, max_attempts + 1)\<close> loop, as a
  recursion over the attempts still to make, and the two statements after the loop.
\<close>

fun retry_loop ::
  "int \<Rightarrow> bool \<Rightarrow> string list \<Rightarrow> ('s \<Rightarrow> (py_exception + 'a) \<times> 's) \<Rightarrow> int list \<Rightarrow> real
     \<Rightarrow> py_exception option \<Rightarrow> 's world \<Rightarrow> (py_exception + 'a) \<times> 's world" where
  "retry_loop max_attempts exponential_backoff exceptions func [] current_delay
       last_exception w =
     (case last_exception of
        Some e \<Rightarrow> (Inl e, w)
      | None \<Rightarrow> (Inl (RuntimeError ''Unexpected retry loop exit''), w))"
| "retry_loop max_attempts exponential_backoff exceptions func (attempt # rest) current_delay
       last_exception w =
     (case invoke_op func w of
        (Inr v, w1) \<Rightarrow> (Inr v, w1)
      | (Inl e, w1) \<Rightarrow>
          if \<not> catches exceptions e then (Inl e, w1)
          else if attempt = max_attempts then (Inl e, w1)
          else (case time_sleep current_delay w1 of
                  Inl e2 \<Rightarrow> (Inl e2, w1)
                | Inr w2 \<Rightarrow>
                    retry_loop max_attempts exponential_backoff exceptions func rest
                      (if exponential_backoff then current_delay * 2 else current_delay)
                      (Some e) w2))"

definition retry ::
  "int \<Rightarrow> real \<Rightarrow> bool \<Rightarrow> string list \<Rightarrow> ('s \<Rightarrow> (py_exception + 'a) \<times> 's) \<Rightarrow> 's
     \<Rightarrow> (py_exception + 'a) \<times> 's world" where
  "retry max_attempts delay exponential_backoff exceptions func s0 =
     retry_loop max_attempts exponential_backoff exceptions func [1..max_attempts] delay None
       \<lparr>op_state = s0, invocations = 0, sleeps = []\<rparr>"

text \<open>The state the operation is in after \<open>k\<close> invocations, starting from \<open>s\<close>.\<close>

definition after_invocations :: "('s \<Rightarrow> (py_exception + 'a) \<times> 's) \<Rightarrow> nat \<Rightarrow> 's \<Rightarrow> 's" where
  "after_invocations func k s = ((\<lambda>t. snd (func t)) ^^ k) s"

text \<open>The operation fails on every invocation, with an error the wrapper retries.\<close>

definition always_fails :: "string list \<Rightarrow> ('s \<Rightarrow> (py_exception + 'a) \<times> 's) \<Rightarrow> bool" where
  "always_fails exceptions func =
     (\<forall>s. \<exists>e. fst (func s) = Inl e \<and> catches exceptions e)"

section \<open>The workflow state, its merge and the router\<close>

text \<open>
  \<open>WorkflowState\<close> is a \<open>TypedDict\<close> declared with \<open>total=False\<close>: a dictionary in
  which every key may be absent. No key of it carries a reducer annotation.
\<close>

type_synonym WorkflowState = pydict

text \<open>
  Modelled from the spec: the merge of a node's partial update into the state. The graph
  library that performs it (\<open>langgraph\<close>) is not among the sources; the spec describes
  it as a shallow per-key overwrite: a key of the update replaces the prior value, every
  other key is untouched, no key is deleted.
\<close>

definition merge :: "WorkflowState \<Rightarrow> pydict \<Rightarrow> WorkflowState" where
  "merge s p = s ++ p"

text \<open>
  Python's \<open>==\<close> and \<open><\<close> on these values. Numbers (\<open>bool\<close> is a subclass of \<open>int\<close>)
  compare by value, whatever their types. Two lists are equal when they have the same
  length and equal elements; two dictionaries when they have the same keys and equal
  values under each key; values of unrelated types are unequal. \<open><\<close> orders two strings
  by their characters and two lists by their first unequal elements (a proper prefix is
  smaller), and raises \<open>TypeError\<close> for every other pair that is not a pair of numbers.
\<close>

fun num_of :: "pyval \<Rightarrow> real option" where
  "num_of (PBool b) = Some (if b then 1 else 0)"
| "num_of (PInt i) = Some (of_int i)"
| "num_of (PFloat x) = Some x"
| "num_of v = None"

fun type_name :: "pyval \<Rightarrow> string" where
  "type_name PNone = ''NoneType''"
| "type_name (PBool b) = ''bool''"
| "type_name (PInt i) = ''int''"
| "type_name (PFloat x) = ''float''"
| "type_name (PStr s) = ''str''"
| "type_name (PList xs) = ''list''"
| "type_name (PDict kvs) = ''dict''"

function (sequential) py_eq :: "pyval \<Rightarrow> pyval \<Rightarrow> bool" where
  "py_eq (PList xs) (PList ys) = list_all2 py_eq xs ys"
| "py_eq (PDict kvs) (PDict kvs') =
     (set (map fst kvs) = set (map fst kvs')
      \<and> list_all (\<lambda>k. case map_of kvs k of
                         None \<Rightarrow> False
                       | Some v \<Rightarrow> (case map_of kvs' k of
                                     None \<Rightarrow> False
                                   | Some v' \<Rightarrow> py_eq v v'))
            (map fst kvs))"
| "py_eq a b =
     (case (num_of a, num_of b) of
        (Some x, Some y) \<Rightarrow> x = y
      | _ \<Rightarrow> a = b)"
  by pat_completeness auto
termination
proof (relation "measure (\<lambda>(a, b). size a)", goal_cases)
  case 1
  show ?case by simp
next
  case (2 xs ys z yb)
  then show ?case by (simp add: less_Suc_eq_le size_list_estimation')
next
  case 3
  have smaller: "size u < Suc (size_list (size_prod (\<lambda>x. 0) size) l)"
    if "map_of l j = Some u" for l :: "(string \<times> pyval) list" and j u
    using that by (induction l) (auto split: if_splits)
  from 3 show ?case by (simp add: smaller)
qed

fun str_lt :: "string \<Rightarrow> string \<Rightarrow> bool" where
  "str_lt [] [] = False"
| "str_lt [] (d # ds) = True"
| "str_lt (c # cs) [] = False"
| "str_lt (c # cs) (d # ds) =
     (if c = d then str_lt cs ds else (of_char c :: nat) < of_char d)"

fun py_lt :: "pyval \<Rightarrow> pyval \<Rightarrow> py_exception + bool"
  and list_lt :: "pyval list \<Rightarrow> pyval list \<Rightarrow> py_exception + bool" where
  "py_lt (PStr s) (PStr t) = Inr (str_lt s t)"
| "py_lt (PList xs) (PList ys) = list_lt xs ys"
| "py_lt a b =
     (case (num_of a, num_of b) of
        (Some x, Some y) \<Rightarrow> Inr (x < y)
      | _ \<Rightarrow> Inl (TypeError (quoted ''<'' @ '' not supported between instances of ''
                  @ quoted (type_name a) @ '' and '' @ quoted (type_name b))))"
| "list_lt [] [] = Inr False"
| "list_lt [] (y # ys) = Inr True"
| "list_lt (x # xs) [] = Inr False"
| "list_lt (x # xs) (y # ys) = (if py_eq x y then list_lt xs ys else py_lt x y)"

text \<open>\<open>should_generate_tests(state)\<close> of \<open>workflow/nodes.py\<close>: the router.\<close>

definition should_generate_tests :: "WorkflowState \<Rightarrow> py_exception + string" where
  "should_generate_tests state =
     (let coverage = get_default state ''coverage_before'' (PInt 0);
          threshold = get_default state ''coverage_threshold'' (PInt 90)
      in case py_lt coverage threshold of
           Inl e \<Rightarrow> Inl e
         | Inr lt \<Rightarrow> Inr (if lt then ''analyze_code'' else ''end''))"

section \<open>The node functions\<close>

text \<open>Sequencing of statements that may raise: the first exception ends the function.\<close>

definition bind_exc :: "py_exception + 'a \<Rightarrow> ('a \<Rightarrow> py_exception + 'b) \<Rightarrow> py_exception + 'b" where
  "bind_exc m f = (case m of Inl e \<Rightarrow> Inl e | Inr v \<Rightarrow> f v)"

text \<open>
  What a node needs from outside itself. \<open>get_settings()\<close> returns the loaded
  configuration or raises; of the configuration the nodes compute with
  \<open>git.branch_prefix\<close> and \<open>workflow.max_tests_per_file\<close> only (the rest is handed to the
  agents' constructors). Each agent is a pluggable step: its \<open>execute\<close> is a parameter.
  Creating the LLM provider and constructing the pull-request agent (which connects)
  may raise; \<open>now_timestamp\<close> is \<open>datetime.now().strftime("%Y%m%d-%H%M%S")\<close>.
\<close>

record settings =
  git_branch_prefix :: string
  workflow_max_tests_per_file :: int

record env =
  get_settings :: "py_exception + settings"
  git_execute :: "pydict \<Rightarrow> py_exception + AgentResult"
  sonar_execute :: "pydict \<Rightarrow> py_exception + AgentResult"
  analyzer_execute :: "pydict \<Rightarrow> py_exception + AgentResult"
  test_gen_execute :: "pydict \<Rightarrow> py_exception + AgentResult"
  pr_execute :: "pydict \<Rightarrow> py_exception + AgentResult"
  llm_create :: "py_exception option"
  pr_agent_init :: "py_exception option"
  now_timestamp :: string

definition raise_if :: "py_exception option \<Rightarrow> py_exception + unit" where
  "raise_if r = (case r of Some e \<Rightarrow> Inl e | None \<Rightarrow> Inr ())"

text \<open>\<open>s.split(sep)\<close> for a one-character separator, and \<open>s.replace(old, new)\<close>.\<close>

fun split :: "char \<Rightarrow> string \<Rightarrow> string list" where
  "split sep [] = [[]]"
| "split sep (c # cs) =
     (if c = sep then [] # split sep cs
      else (c # hd (split sep cs)) # tl (split sep cs))"

fun str_replace_aux :: "string \<Rightarrow> string \<Rightarrow> nat \<Rightarrow> string \<Rightarrow> string" where
  "str_replace_aux old new k [] = []"
| "str_replace_aux old new (Suc k) (c # cs) = str_replace_aux old new k cs"
| "str_replace_aux old new 0 (c # cs) =
     (if prefix old (c # cs) then new @ str_replace_aux old new (length old - 1) cs
      else c # str_replace_aux old new 0 cs)"

definition str_replace :: "string \<Rightarrow> string \<Rightarrow> string \<Rightarrow> string" where
  "str_replace old new s =
     (if old = [] then new @ concat (map (\<lambda>c. c # new) s)
      else str_replace_aux old new 0 s)"

text \<open>
  \<open>str(Path("./workspaces") / repo_name)\<close> on a POSIX system, for a name without a
  slash: the leading \<open>./\<close> is dropped, and so is an empty or \<open>.\<close> last component.
\<close>

definition workspace_path :: "string \<Rightarrow> string" where
  "workspace_path repo_name =
     (if repo_name = [] \<or> repo_name = ''.'' then ''workspaces''
      else ''workspaces/'' @ repo_name)"

text \<open>\<open>result.error\<close> as a value: \<open>None\<close> or the string.\<close>

definition error_val :: "AgentResult \<Rightarrow> pyval" where
  "error_val r = (case error r of None \<Rightarrow> PNone | Some msg \<Rightarrow> PStr msg)"

text \<open>The dictionary every node returns when its step did not succeed.\<close>

definition failed_update :: "AgentResult \<Rightarrow> string \<Rightarrow> pydict" where
  "failed_update result step =
     [''errors'' \<mapsto> PList [error_val result], ''status'' \<mapsto> PStr ''failed'',
      ''current_step'' \<mapsto> PStr step]"

definition clone_repository_node :: "env \<Rightarrow> WorkflowState \<Rightarrow> py_exception + pydict" where
  "clone_repository_node ev state =
     bind_exc (get_settings ev) (\<lambda>cfg.
     bind_exc (getitem state ''repo_url'') (\<lambda>repo_url.
       case repo_url of
         PStr url \<Rightarrow>
           (let repo_name = str_replace ''.git'' [] (last (split CHR ''/'' url));
                local_path = workspace_path repo_name
            in bind_exc (BaseAgent_run (git_execute ev)
                  [''operation'' \<mapsto> PStr ''clone'', ''repo_url'' \<mapsto> repo_url,
                   ''local_path'' \<mapsto> PStr local_path]) (\<lambda>result.
                 if is_success result
                 then bind_exc (getitem (data result) ''repo_path'') (\<lambda>repo_path.
                        Inr [''repo_path'' \<mapsto> repo_path, ''current_step'' \<mapsto> PStr ''clone'',
                             ''repository_id'' \<mapsto> PStr repo_name])
                 else Inr (failed_update result ''clone'')))
       | other \<Rightarrow>
           Inl (AttributeError (quoted (type_name other) @ '' object has no attribute ''
                  @ quoted ''split''))))"

definition check_coverage_node :: "env \<Rightarrow> WorkflowState \<Rightarrow> py_exception + pydict" where
  "check_coverage_node ev state =
     bind_exc (get_settings ev) (\<lambda>cfg.
     bind_exc (getitem state ''sonar_project_key'') (\<lambda>project_key.
     bind_exc (BaseAgent_run (sonar_execute ev) [''project_key'' \<mapsto> project_key]) (\<lambda>result.
       if is_success result
       then bind_exc (getitem (data result) ''coverage'') (\<lambda>coverage.
            bind_exc (getitem (data result) ''metrics'') (\<lambda>metrics.
            bind_exc (getitem (data result) ''uncovered_files'') (\<lambda>uncovered_files.
              Inr [''coverage_before'' \<mapsto> coverage, ''coverage_metrics'' \<mapsto> metrics,
                   ''uncovered_files'' \<mapsto> uncovered_files,
                   ''current_step'' \<mapsto> PStr ''check_coverage''])))
       else Inr (failed_update result ''check_coverage''))))"

definition analyze_code_node :: "env \<Rightarrow> WorkflowState \<Rightarrow> py_exception + pydict" where
  "analyze_code_node ev state =
     bind_exc (get_settings ev) (\<lambda>cfg.
     bind_exc (getitem state ''repo_path'') (\<lambda>repo_path.
     bind_exc (BaseAgent_run (analyzer_execute ev)
        [''repo_path'' \<mapsto> repo_path,
         ''uncovered_files'' \<mapsto> get_default state ''uncovered_files'' (PList [])]) (\<lambda>result.
       if is_success result
       then bind_exc (getitem (data result) ''test_candidates'') (\<lambda>test_candidates.
              Inr [''test_candidates'' \<mapsto> test_candidates,
                   ''current_step'' \<mapsto> PStr ''analyze_code''])
       else Inr (failed_update result ''analyze_code''))))"

definition generate_tests_node :: "env \<Rightarrow> WorkflowState \<Rightarrow> py_exception + pydict" where
  "generate_tests_node ev state =
     bind_exc (get_settings ev) (\<lambda>cfg.
     bind_exc (raise_if (llm_create ev)) (\<lambda>llm.
     bind_exc (getitem state ''test_candidates'') (\<lambda>test_candidates.
     bind_exc (getitem state ''repo_path'') (\<lambda>repo_path.
     bind_exc (BaseAgent_run (test_gen_execute ev)
        [''test_candidates'' \<mapsto> test_candidates, ''repo_path'' \<mapsto> repo_path,
         ''max_tests'' \<mapsto> PInt (workflow_max_tests_per_file cfg)]) (\<lambda>result.
       if is_success result
       then bind_exc (getitem (data result) ''generated_tests'') (\<lambda>generated_tests.
            bind_exc (getitem (data result) ''test_files'') (\<lambda>test_files.
              Inr [''generated_tests'' \<mapsto> generated_tests, ''test_files'' \<mapsto> test_files,
                   ''current_step'' \<mapsto> PStr ''generate_tests'']))
       else Inr (failed_update result ''generate_tests''))))))"

definition create_pr_node :: "env \<Rightarrow> WorkflowState \<Rightarrow> py_exception + pydict" where
  "create_pr_node ev state =
     bind_exc (get_settings ev) (\<lambda>cfg.
     let timestamp = now_timestamp ev in
     bind_exc (BaseAgent_run (git_execute ev)
        [''operation'' \<mapsto> PStr ''create_branch'',
         ''branch_name'' \<mapsto> PStr (git_branch_prefix cfg @ ''-'' @ timestamp),
         ''timestamp'' \<mapsto> PStr timestamp]) (\<lambda>branch_result.
     if \<not> is_success branch_result then Inr (failed_update branch_result ''create_pr'')
     else
     bind_exc (getitem (data branch_result) ''branch_name'') (\<lambda>branch_name.
     bind_exc (getitem state ''test_files'') (\<lambda>files_to_add.
     bind_exc (BaseAgent_run (git_execute ev)
        [''operation'' \<mapsto> PStr ''commit'',
         ''commit_message'' \<mapsto> PStr ''Add generated unit tests to improve code coverage'',
         ''files_to_add'' \<mapsto> files_to_add]) (\<lambda>commit_result.
     if \<not> is_success commit_result \<and> status_value (status commit_result) \<noteq> ''skipped''
     then Inr (failed_update commit_result ''create_pr'')
     else
     bind_exc (BaseAgent_run (git_execute ev) [''operation'' \<mapsto> PStr ''push'']) (\<lambda>push_result.
     if \<not> is_success push_result then Inr (failed_update push_result ''create_pr'')
     else
     bind_exc (raise_if (pr_agent_init ev)) (\<lambda>pr_agent.
     bind_exc (getitem state ''repository_id'') (\<lambda>repository_id.
     bind_exc (getitem state ''test_files'') (\<lambda>test_files.
     bind_exc (BaseAgent_run (pr_execute ev)
        [''repository_id'' \<mapsto> repository_id,
         ''source_branch'' \<mapsto> branch_name,
         ''pr_title'' \<mapsto> PStr (''Improve code coverage - '' @ timestamp),
         ''pr_description'' \<mapsto>
            PStr ''Automated code coverage improvement with generated unit tests'',
         ''test_files'' \<mapsto> test_files,
         ''coverage_before'' \<mapsto> get_default state ''coverage_before'' PNone]) (\<lambda>pr_result.
     if is_success pr_result
     then bind_exc (getitem (data pr_result) ''pr_id'') (\<lambda>pr_id.
          bind_exc (getitem (data pr_result) ''pr_url'') (\<lambda>pr_url.
            Inr [''branch_name'' \<mapsto> branch_name, ''pr_id'' \<mapsto> pr_id, ''pr_url'' \<mapsto> pr_url,
                 ''status'' \<mapsto> PStr ''success'', ''current_step'' \<mapsto> PStr ''create_pr'']))
     else Inr (failed_update pr_result ''create_pr'')))))))))))"

section \<open>The coverage step: \<open>SonarQubeAgent.execute\<close>\<close>

text \<open>
  \<open>SonarQubeAgent.execute(context)\<close> of \<open>agents/sonar_agent.py\<close>. The two HTTP
  fetches are parameters: \<open>_fetch_metrics\<close> returns the metrics (a dictionary of
  floats) or raises, \<open>_fetch_coverage_details\<close> returns a dictionary or raises. The
  validation stands before the \<open>try\<close>; inside it, \<open>except Exception\<close> re-raises as
  \<open>AgentError\<close>.
\<close>

definition SonarQubeAgent_execute ::
  "string \<Rightarrow> (pyval \<Rightarrow> py_exception + (string \<times> real) list) \<Rightarrow> (pyval \<Rightarrow> py_exception + pydict)
     \<Rightarrow> pydict \<Rightarrow> py_exception + AgentResult" where
  "SonarQubeAgent_execute sonar_url fetch_metrics fetch_coverage_details ctx =
     bind_exc (validate_context ''SonarQubeAgent'' ctx [''project_key'']) (\<lambda>u.
     bind_exc (getitem ctx ''project_key'') (\<lambda>project_key.
       case bind_exc (fetch_metrics project_key) (\<lambda>metrics_data.
            bind_exc (fetch_coverage_details project_key) (\<lambda>coverage_details.
              Inr (AgentResult_init SUCCESS
                (Some [''project_key'' \<mapsto> project_key,
                       ''coverage'' \<mapsto>
                          (case map_of metrics_data ''coverage'' of
                             None \<Rightarrow> PFloat 0 | Some c \<Rightarrow> PFloat c),
                       ''metrics'' \<mapsto> PDict (map (\<lambda>(k, v). (k, PFloat v)) metrics_data),
                       ''uncovered_lines'' \<mapsto>
                          get_default coverage_details ''uncovered_lines'' (PList []),
                       ''uncovered_files'' \<mapsto>
                          get_default coverage_details ''uncovered_files'' (PList [])])
                None
                (Some [''sonar_url'' \<mapsto> PStr sonar_url]))))
       of Inr result \<Rightarrow> Inr result
        | Inl e \<Rightarrow>
            if isinstance e ''Exception''
            then Inl (AgentError (''SonarQube API error: '' @ exc_str e))
            else Inl e))"

section \<open>The graph and its executor\<close>

text \<open>
  The topology \<open>create_workflow_graph()\<close> of \<open>workflow/graph.py\<close> registers: five
  nodes, the entry point, four static edges and the one conditional edge after
  \<open>check_coverage\<close>, whose router is \<open>should_generate_tests\<close>.
\<close>

datatype target = Node string | END

record compiled_graph =
  nodes :: "(string \<times> (WorkflowState \<Rightarrow> py_exception + pydict)) list"
  entry_point :: string
  edges :: "(string \<times> target) list"
  conditional_edges ::
    "(string \<times> (WorkflowState \<Rightarrow> py_exception + string) \<times> (string \<times> target) list) list"

definition create_workflow_graph :: "env \<Rightarrow> compiled_graph" where
  "create_workflow_graph ev =
     \<lparr>nodes =
        [(''clone_repository'', clone_repository_node ev),
         (''check_coverage'', check_coverage_node ev),
         (''analyze_code'', analyze_code_node ev),
         (''generate_tests'', generate_tests_node ev),
         (''create_pr'', create_pr_node ev)],
      entry_point = ''clone_repository'',
      edges =
        [(''clone_repository'', Node ''check_coverage''),
         (''analyze_code'', Node ''generate_tests''),
         (''generate_tests'', Node ''create_pr''),
         (''create_pr'', END)],
      conditional_edges =
        [(''check_coverage'',
          (should_generate_tests,
           [(''analyze_code'', Node ''analyze_code''), (''end'', END)]))]\<rparr>"

definition RoutingError :: "string \<Rightarrow> py_exception" where
  "RoutingError label = PyExc ''RoutingError'' [''Exception'', ''BaseException''] label"

definition GraphDefinitionError :: "string \<Rightarrow> py_exception" where
  "GraphDefinitionError name =
     PyExc ''GraphDefinitionError'' [''Exception'', ''BaseException''] name"

text \<open>
  Modelled from the spec: the executor of the compiled graph (the \<open>invoke\<close> of the graph
  library, which is not among the sources). The spec's algorithm: start at the entry
  node; while the current node is not the terminal marker, run the node on the state,
  merge its partial update, then follow the conditional edge of the node (the router is
  applied to the merged state; an unknown label fails with \<open>RoutingError\<close>) or else its
  static edge, or else stop. An exception a node or the router raises aborts the run.
  The loop is given fuel: \<open>None\<close> is a run that has not ended within it. The trace lists
  the nodes executed, in order.
\<close>

definition next_target :: "compiled_graph \<Rightarrow> string \<Rightarrow> WorkflowState \<Rightarrow> py_exception + target" where
  "next_target g current state =
     (case map_of (conditional_edges g) current of
        Some (router, label_to_target) \<Rightarrow>
          bind_exc (router state) (\<lambda>label.
            case map_of label_to_target label of
              None \<Rightarrow> Inl (RoutingError label)
            | Some t \<Rightarrow> Inr t)
      | None \<Rightarrow>
          (case map_of (edges g) current of
             Some t \<Rightarrow> Inr t
           | None \<Rightarrow> Inr END))"

definition exec_step ::
  "compiled_graph \<Rightarrow> string \<Rightarrow> WorkflowState \<Rightarrow> py_exception + (target \<times> WorkflowState)" where
  "exec_step g current state =
     (case map_of (nodes g) current of
        None \<Rightarrow> Inl (GraphDefinitionError current)
      | Some node \<Rightarrow>
          bind_exc (node state) (\<lambda>partial.
            let merged = merge state partial
            in bind_exc (next_target g current merged) (\<lambda>t. Inr (t, merged))))"

fun exec ::
  "nat \<Rightarrow> compiled_graph \<Rightarrow> target \<Rightarrow> WorkflowState \<Rightarrow> string list
     \<Rightarrow> ((py_exception + WorkflowState) \<times> string list) option" where
  "exec fuel g END state trace = Some (Inr state, trace)"
| "exec 0 g (Node n) state trace = None"
| "exec (Suc fuel) g (Node n) state trace =
     (case exec_step g n state of
        Inl e \<Rightarrow> Some (Inl e, trace @ [n])
      | Inr (t, merged) \<Rightarrow> exec fuel g t merged (trace @ [n]))"

definition invoke ::
  "nat \<Rightarrow> compiled_graph \<Rightarrow> WorkflowState \<Rightarrow> ((py_exception + WorkflowState) \<times> string list) option" where
  "invoke fuel g initial = exec fuel g (Node (entry_point g)) initial []"

section \<open>The workflow runner of the API\<close>

datatype WorkflowStatus = WF_PENDING | WF_RUNNING | WF_SUCCESS | WF_FAILED

record WorkflowStartRequest =
  repo_url :: string
  sonar_project_key :: string
  coverage_threshold :: int

text \<open>
  The entry \<open>workflows[workflow_id]\<close> of the tracking table, with the keys
  \<open>run_workflow_background\<close> writes (a key not written yet is \<open>None\<close>).
\<close>

record workflow_entry =
  wf_status :: WorkflowStatus
  wf_current_step :: "pyval option"
  wf_coverage_before :: "pyval option"
  wf_pr_url :: "pyval option"
  wf_errors :: "pyval option"
  wf_result :: "WorkflowState option"

definition initial_state :: "WorkflowStartRequest \<Rightarrow> string \<Rightarrow> string \<Rightarrow> WorkflowState" where
  "initial_state request now_iso workflow_id =
     [''repo_url'' \<mapsto> PStr (repo_url request),
      ''sonar_project_key'' \<mapsto> PStr (sonar_project_key request),
      ''coverage_threshold'' \<mapsto> PInt (coverage_threshold request),
      ''timestamp'' \<mapsto> PStr now_iso,
      ''workflow_id'' \<mapsto> PStr workflow_id,
      ''errors'' \<mapsto> PList []]"

text \<open>The \<open>update\<close> after \<open>invoke\<close> returned the final state \<open>result\<close>.\<close>

definition record_result :: "WorkflowState \<Rightarrow> workflow_entry \<Rightarrow> workflow_entry" where
  "record_result result entry =
     entry\<lparr>wf_status :=
              (if get_default result ''status'' PNone \<noteq> PStr ''failed''
               then WF_SUCCESS else WF_FAILED),
           wf_current_step := Some (get_default result ''current_step'' PNone),
           wf_coverage_before := Some (get_default result ''coverage_before'' PNone),
           wf_pr_url := Some (get_default result ''pr_url'' PNone),
           wf_errors := Some (get_default result ''errors'' (PList [])),
           wf_result := Some result\<rparr>"

text \<open>The \<open>update\<close> of the \<open>except Exception as e\<close> branch.\<close>

definition record_exception :: "py_exception \<Rightarrow> workflow_entry \<Rightarrow> workflow_entry" where
  "record_exception e entry =
     entry\<lparr>wf_status := WF_FAILED, wf_errors := Some (PList [PStr (exc_str e)])\<rparr>"

text \<open>
  \<open>run_workflow_background(workflow_id, request)\<close> of \<open>api/routes/workflow.py\<close>: the
  entry after the run, and the exception that escaped, if one did (\<open>except Exception\<close>
  lets through what is not an \<open>Exception\<close>).
\<close>

definition run_workflow_background ::
  "nat \<Rightarrow> env \<Rightarrow> string \<Rightarrow> string \<Rightarrow> WorkflowStartRequest \<Rightarrow> workflow_entry
     \<Rightarrow> (py_exception option \<times> workflow_entry) option" where
  "run_workflow_background fuel ev now_iso workflow_id request entry =
     (let running = entry\<lparr>wf_status := WF_RUNNING\<rparr>
      in case invoke fuel (create_workflow_graph ev)
                (initial_state request now_iso workflow_id) of
           None \<Rightarrow> None
         | Some (Inr result, trace) \<Rightarrow> Some (None, record_result result running)
         | Some (Inl e, trace) \<Rightarrow>
             if isinstance e ''Exception'' then Some (None, record_exception e running)
             else Some (Some e, running))"

section \<open>The invariant of results, and concrete steps and requests\<close>

text \<open>The spec's invariant of a result: the error is present exactly when it failed.\<close>

definition error_iff_failed :: "AgentResult \<Rightarrow> bool" where
  "error_iff_failed r = ((error r \<noteq> None) = (status r = FAILED))"

text \<open>
  Steps whose \<open>execute\<close> raises: a \<open>RuntimeError()\<close> without a message, an
  \<open>AgentError\<close> with one, and a \<open>KeyboardInterrupt\<close>.
\<close>

definition raises_without_message :: "pydict \<Rightarrow> py_exception + AgentResult" where
  "raises_without_message ctx = Inl (RuntimeError [])"

definition raises_agent_error :: "pydict \<Rightarrow> py_exception + AgentResult" where
  "raises_agent_error ctx = Inl (AgentError ''Failed to clone repository: no route to host'')"

definition interrupted :: "pydict \<Rightarrow> py_exception + AgentResult" where
  "interrupted ctx = Inl (KeyboardInterrupt [])"

text \<open>
  A run to try the workflow on. The configuration loads; the git step behaves as a
  \<open>GitAgent\<close> that has just been constructed: a clone succeeds or raises as the
  argument says, and every other operation raises because no repository is initialised.
  The coverage step is \<open>SonarQubeAgent.execute\<close> over a server that reports a
  coverage, or over one that cannot be reached. The analysis and generation steps
  succeed with nothing to do; the review step cannot reach its server.
\<close>

definition cfg0 :: settings where
  "cfg0 = \<lparr>git_branch_prefix = ''coverage-improvement'', workflow_max_tests_per_file = 10\<rparr>"

definition git_fresh :: "py_exception option \<Rightarrow> pydict \<Rightarrow> py_exception + AgentResult" where
  "git_fresh clone_outcome ctx =
     (if get_default ctx ''operation'' (PStr ''clone'') = PStr ''clone''
      then (case clone_outcome of
              Some e \<Rightarrow> Inl e
            | None \<Rightarrow>
                Inr (AgentResult_init SUCCESS
                  (Some [''repo_path'' \<mapsto> get_default ctx ''local_path'' PNone,
                         ''current_branch'' \<mapsto> PStr ''main''])
                  None (Some [''operation'' \<mapsto> PStr ''clone''])))
      else Inl (AgentError ''Repository not initialized. Run clone operation first.''))"

definition metrics_of :: "real \<Rightarrow> pyval \<Rightarrow> py_exception + (string \<times> real) list" where
  "metrics_of c project_key = Inr [(''coverage'', c)]"

definition metrics_unreachable :: "pyval \<Rightarrow> py_exception + (string \<times> real) list" where
  "metrics_unreachable project_key = Inl (AgentError ''Failed to fetch metrics: timed out'')"

definition no_details :: "pyval \<Rightarrow> py_exception + pydict" where
  "no_details project_key = Inr [''uncovered_files'' \<mapsto> PList [], ''uncovered_lines'' \<mapsto> PInt 0]"

definition sonar_reports :: "real \<Rightarrow> pydict \<Rightarrow> py_exception + AgentResult" where
  "sonar_reports c = SonarQubeAgent_execute ''http://sonar'' (metrics_of c) no_details"

definition sonar_down :: "pydict \<Rightarrow> py_exception + AgentResult" where
  "sonar_down = SonarQubeAgent_execute ''http://sonar'' metrics_unreachable no_details"

definition analyzer_ok :: "pydict \<Rightarrow> py_exception + AgentResult" where
  "analyzer_ok ctx =
     Inr (AgentResult_init SUCCESS
       (Some [''test_candidates'' \<mapsto> PList [], ''total_candidates'' \<mapsto> PInt 0]) None
       (Some [''analyzed_files'' \<mapsto> PInt 0]))"

definition test_gen_ok :: "pydict \<Rightarrow> py_exception + AgentResult" where
  "test_gen_ok ctx =
     Inr (AgentResult_init SUCCESS
       (Some [''generated_tests'' \<mapsto> PList [], ''test_files'' \<mapsto> PList [],
              ''total_generated'' \<mapsto> PInt 0]) None
       (Some [''framework'' \<mapsto> PStr ''pytest'']))"

definition pr_down :: "pydict \<Rightarrow> py_exception + AgentResult" where
  "pr_down ctx = Inl (AgentError ''PR creation failed: offline'')"

definition scenario_env ::
  "py_exception option \<Rightarrow> (pydict \<Rightarrow> py_exception + AgentResult) \<Rightarrow> env" where
  "scenario_env clone_outcome sonar =
     \<lparr>get_settings = Inr cfg0, git_execute = git_fresh clone_outcome, sonar_execute = sonar,
      analyzer_execute = analyzer_ok, test_gen_execute = test_gen_ok, pr_execute = pr_down,
      llm_create = None, pr_agent_init = None, now_timestamp = ''20240101-000000''\<rparr>"

definition clone_failure :: py_exception where
  "clone_failure = AgentError ''Failed to clone repository: no route to host''"

definition request0 :: "int \<Rightarrow> WorkflowStartRequest" where
  "request0 t =
     \<lparr>repo_url = ''https://h/r.git'', sonar_project_key = ''k'', coverage_threshold = t\<rparr>"

definition state0 :: "int \<Rightarrow> WorkflowState" where
  "state0 t = initial_state (request0 t) ''2024-01-01T00:00:00'' ''w1''"

text \<open>
  An operation that fails on every invocation with a \<open>ConnectionError\<close> whose message
  counts the attempts; its state is the number of invocations so far.
\<close>

definition flaky :: "nat \<Rightarrow> (py_exception + string) \<times> nat" where
  "flaky k =
     (Inl (PyExc ''ConnectionError'' [''OSError'', ''Exception'', ''BaseException'']
            (''attempt '' @ replicate (Suc k) CHR ''I'')),
      Suc k)"

text \<open>
  A second run: the git and review steps succeed at every operation, so that the last
  node reaches its success branch.
\<close>

definition git_ok :: "pydict \<Rightarrow> py_exception + AgentResult" where
  "git_ok ctx =
     Inr (AgentResult_init SUCCESS
       (Some [''repo_path'' \<mapsto> get_default ctx ''local_path'' PNone,
              ''branch_name'' \<mapsto> get_default ctx ''branch_name'' PNone])
       None None)"

definition pr_ok :: "pydict \<Rightarrow> py_exception + AgentResult" where
  "pr_ok ctx =
     Inr (AgentResult_init SUCCESS
       (Some [''pr_id'' \<mapsto> PInt 7, ''pr_url'' \<mapsto> PStr ''https://h/pr/7'']) None None)"

definition review_env :: "(pydict \<Rightarrow> py_exception + AgentResult) \<Rightarrow> env" where
  "review_env sonar =
     \<lparr>get_settings = Inr cfg0, git_execute = git_ok, sonar_execute = sonar,
      analyzer_execute = analyzer_ok, test_gen_execute = test_gen_ok, pr_execute = pr_ok,
      llm_create = None, pr_agent_init = None, now_timestamp = ''20240101-000000''\<rparr>"

text \<open>
  A third run: the clone succeeds and the coverage server reports 60, but the analysis
  step fails (\<open>AnalyzerAgent.execute\<close> re-raises whatever goes wrong as an
  \<open>AgentError\<close>).
\<close>

definition analyzer_fails :: "pydict \<Rightarrow> py_exception + AgentResult" where
  "analyzer_fails ctx = Inl (AgentError (''Analysis error: '' @ quoted ''path''))"

definition failed_analysis_env :: env where
  "failed_analysis_env =
     \<lparr>get_settings = Inr cfg0, git_execute = git_fresh None,
      sonar_execute = sonar_reports 60, analyzer_execute = analyzer_fails,
      test_gen_execute = test_gen_ok, pr_execute = pr_down,
      llm_create = None, pr_agent_init = None, now_timestamp = ''20240101-000000''\<rparr>"

definition entry0 :: workflow_entry where
  "entry0 =
     \<lparr>wf_status = WF_PENDING, wf_current_step = None, wf_coverage_before = None,
      wf_pr_url = None, wf_errors = None, wf_result = None\<rparr>"

text \<open>
  What is read off a run: the nodes executed, and the value the final state holds under
  a key (\<open>Some None\<close> when the final state lacks the key, \<open>None\<close> when there is no final
  state).
\<close>

definition executed ::
  "((py_exception + WorkflowState) \<times> string list) option \<Rightarrow> string list option" where
  "executed run = map_option snd run"

definition final_value ::
  "string \<Rightarrow> ((py_exception + WorkflowState) \<times> string list) option \<Rightarrow> pyval option option" where
  "final_value key run =
     (case run of
        Some (Inr final, trace) \<Rightarrow> Some (final key)
      | Some (Inl e, trace) \<Rightarrow> None
      | None \<Rightarrow> None)"

section \<open>Properties: the step contract\<close>

lemma bind_exc_Inr [simp]: "bind_exc (Inr v) f = f v"
  by (simp add: bind_exc_def)

lemma bind_exc_Inl [simp]: "bind_exc (Inl e) f = Inl e"
  by (simp add: bind_exc_def)

lemma sublist_join: "k \<in> set xs \<Longrightarrow> sublist k (join sep xs)"
proof (induction sep xs rule: join.induct)
  case (1 sep)
  then show ?case by simp
next
  case (2 sep x)
  then show ?case by simp
next
  case (3 sep x y ys)
  show ?case
  proof (cases "k = x")
    case True
    then show ?thesis by (simp add: sublist_append)
  next
    case False
    with 3 have "sublist k (join sep (y # ys))" by simp
    then show ?thesis by (simp add: sublist_append)
  qed
qed

text \<open>
  Claim C6. For every step name, context and list of required keys: when at least one
  required key is absent from the context, \<open>validate_context\<close> fails with one error (the
  \<open>ValueError\<close> the source raises) whose message is the step's name, the fixed phrase
  and the absent keys joined by commas, so that every absent required key, not only the
  first, occurs in the message; when every required key is present it returns without
  error.
\<close>

theorem validate_context_names_every_missing_key:
  "((\<exists>key \<in> set required_keys. ctx key = None) \<longrightarrow>
      (\<exists>msg. validate_context name ctx required_keys = Inl (ValueError msg)
         \<and> msg = name @ '' missing required context keys: ''
                    @ join '', '' (filter (\<lambda>key. ctx key = None) required_keys)
         \<and> (\<forall>key \<in> set required_keys. ctx key = None \<longrightarrow> sublist key msg)))
   \<and> ((\<forall>key \<in> set required_keys. ctx key \<noteq> None) \<longrightarrow>
         validate_context name ctx required_keys = Inr ())"
proof (intro conjI impI)
  assume "\<exists>key \<in> set required_keys. ctx key = None"
  then have ne: "missing_keys ctx required_keys \<noteq> []"
    by (auto simp: missing_keys_def filter_empty_conv)
  have "\<forall>key \<in> set required_keys. ctx key = None \<longrightarrow>
      sublist key (name @ '' missing required context keys: ''
        @ join '', '' (missing_keys ctx required_keys))"
  proof (intro ballI impI)
    fix key assume "key \<in> set required_keys" "ctx key = None"
    then have "key \<in> set (missing_keys ctx required_keys)" by (simp add: missing_keys_def)
    then have "sublist key (join '', '' (missing_keys ctx required_keys))" by (rule sublist_join)
    then show "sublist key (name @ '' missing required context keys: ''
        @ join '', '' (missing_keys ctx required_keys))"
      by (simp only: sublist_append) blast
  qed
  then show "\<exists>msg. validate_context name ctx required_keys = Inl (ValueError msg)
         \<and> msg = name @ '' missing required context keys: ''
                    @ join '', '' (filter (\<lambda>key. ctx key = None) required_keys)
         \<and> (\<forall>key \<in> set required_keys. ctx key = None \<longrightarrow> sublist key msg)"
    using ne by (simp add: validate_context_def missing_keys_def)
next
  assume "\<forall>key \<in> set required_keys. ctx key \<noteq> None"
  then have "missing_keys ctx required_keys = []"
    by (auto simp: missing_keys_def filter_empty_conv)
  then show "validate_context name ctx required_keys = Inr ()"
    by (simp add: validate_context_def)
qed

theorem validate_context_names_every_missing_key_witness:
  "validate_context ''SonarQubeAgent'' [''a'' \<mapsto> PInt 1] [''a'', ''b'', ''c'']
     = Inl (ValueError ''SonarQubeAgent missing required context keys: b, c'')
   \<and> sublist ''b'' ''SonarQubeAgent missing required context keys: b, c''
   \<and> sublist ''c'' ''SonarQubeAgent missing required context keys: b, c''
   \<and> validate_context ''SonarQubeAgent'' [''a'' \<mapsto> PInt 1] [''a''] = Inr ()"
proof -
  have h: "\<exists>key \<in> set [''a'', ''b'', ''c'']. [''a'' \<mapsto> PInt 1] key = None" by simp
  have g: "\<forall>key \<in> set [''a'']. [''a'' \<mapsto> PInt 1] key \<noteq> None" by simp
  note t1 = validate_context_names_every_missing_key
      [of "[''a'', ''b'', ''c'']" "[''a'' \<mapsto> PInt 1]" "''SonarQubeAgent''"]
  note t2 = validate_context_names_every_missing_key
      [of "[''a'']" "[''a'' \<mapsto> PInt 1]" "''SonarQubeAgent''"]
  from t1 h obtain msg where
    m: "validate_context ''SonarQubeAgent'' [''a'' \<mapsto> PInt 1] [''a'', ''b'', ''c''] = Inl (ValueError msg)"
       "msg = ''SonarQubeAgent'' @ '' missing required context keys: ''
                    @ join '', '' (filter (\<lambda>key. [''a'' \<mapsto> PInt 1] key = None) [''a'', ''b'', ''c''])"
       "\<forall>key \<in> set [''a'', ''b'', ''c'']. [''a'' \<mapsto> PInt 1] key = None \<longrightarrow> sublist key msg"
    by blast
  from m(2) have msg: "msg = ''SonarQubeAgent missing required context keys: b, c''" by simp
  from m(3) have "sublist ''b'' msg" "sublist ''c'' msg" by simp_all
  moreover from t2 g have "validate_context ''SonarQubeAgent'' [''a'' \<mapsto> PInt 1] [''a''] = Inr ()" by blast
  ultimately show ?thesis using m(1) msg by simp
qed

text \<open>
  Claim C2, as amended. For every step and context: if \<open>execute\<close> raises an exception
  that is an instance of \<open>Exception\<close>, \<open>run\<close> returns a result with status \<open>FAILED\<close>,
  the error string \<open>str(e)\<close> (empty when the exception carries no message) and the
  exception's class name under the metadata key \<open>exception_type\<close>; an exception that is
  not an instance of \<open>Exception\<close> leaves \<open>run\<close> as it came; a result \<open>execute\<close> returns
  is returned unchanged.
\<close>

theorem run_converts_exceptions:
  "(execute ctx = Inl e \<and> isinstance e ''Exception'' \<longrightarrow>
      BaseAgent_run execute ctx =
        Inr \<lparr>status = FAILED, data = Map.empty, error = Some (exc_str e),
             metadata = [''exception_type'' \<mapsto> PStr (exc_type e)]\<rparr>)
   \<and> (execute ctx = Inl e \<and> \<not> isinstance e ''Exception'' \<longrightarrow>
         BaseAgent_run execute ctx = Inl e)
   \<and> (execute ctx = Inr r \<longrightarrow> BaseAgent_run execute ctx = Inr r)"
  by (simp add: BaseAgent_run_def AgentResult_init_def or_empty_def)

theorem run_converts_exceptions_witness:
  "BaseAgent_run raises_agent_error [''operation'' \<mapsto> PStr ''clone''] =
     Inr \<lparr>status = FAILED, data = Map.empty,
          error = Some ''Failed to clone repository: no route to host'',
          metadata = [''exception_type'' \<mapsto> PStr ''AgentError'']\<rparr>"
proof -
  have h: "raises_agent_error [''operation'' \<mapsto> PStr ''clone'']
             = Inl (AgentError ''Failed to clone repository: no route to host'')
           \<and> isinstance (AgentError ''Failed to clone repository: no route to host'') ''Exception''"
    by (simp add: raises_agent_error_def isinstance_def AgentError_def)
  from run_converts_exceptions
         [of raises_agent_error "[''operation'' \<mapsto> PStr ''clone'']"
             "AgentError ''Failed to clone repository: no route to host''"] h
  show ?thesis by (simp add: AgentError_def)
qed

text \<open>
  Claim C2 as stated fails: a step that raises \<open>RuntimeError()\<close> gets a \<open>FAILED\<close>
  result whose error string is empty, and a \<open>KeyboardInterrupt\<close> raised by \<open>execute\<close>
  is raised by \<open>run\<close>.
\<close>

theorem run_error_string_can_be_empty:
  "BaseAgent_run raises_without_message Map.empty =
     Inr \<lparr>status = FAILED, data = Map.empty, error = Some [],
          metadata = [''exception_type'' \<mapsto> PStr ''RuntimeError'']\<rparr>
   \<and> BaseAgent_run interrupted Map.empty = Inl (KeyboardInterrupt [])"
  by (simp add: BaseAgent_run_def AgentResult_init_def or_empty_def raises_without_message_def
      interrupted_def RuntimeError_def KeyboardInterrupt_def isinstance_def)

section \<open>Properties: the retry wrapper\<close>

lemma after_invocations_Suc:
  "after_invocations func (Suc k) s = after_invocations func k (snd (func s))"
  by (simp add: after_invocations_def funpow_Suc_right del: funpow.simps)

lemma retry_loop_always_fails:
  assumes fails: "always_fails exceptions func" and d: "0 \<le> cd"
  shows "nat (m - a) = k \<Longrightarrow> a \<le> m \<Longrightarrow>
    retry_loop m b exceptions func [a..m] cd le w =
      (fst (func (after_invocations func k (op_state w))),
       \<lparr>op_state = after_invocations func (Suc k) (op_state w),
        invocations = invocations w + Suc k,
        sleeps = sleeps w @ map (\<lambda>j. cd * (if b then 2 ^ j else 1)) [0..<k]\<rparr>)"
  using d
proof (induction k arbitrary: a cd le w)
  case 0
  then have am: "a = m" by simp
  obtain e where e: "fst (func (op_state w)) = Inl e" "catches exceptions e"
    using fails by (auto simp: always_fails_def)
  obtain s' where s': "func (op_state w) = (Inl e, s')" using e by (cases "func (op_state w)") auto
  show ?case using e s' by (simp add: am invoke_op_def after_invocations_def)
next
  case (Suc k)
  then have am: "a < m" and k: "nat (m - (a + 1)) = k" "a + 1 \<le> m" by auto
  obtain e where e: "fst (func (op_state w)) = Inl e" "catches exceptions e"
    using fails by (auto simp: always_fails_def)
  obtain s' where s': "func (op_state w) = (Inl e, s')" using e by (cases "func (op_state w)") auto
  have up: "[a..m] = a # [a + 1..m]" using am by (simp add: upto_rec1)
  let ?w2 = "w\<lparr>op_state := s', invocations := Suc (invocations w), sleeps := sleeps w @ [cd]\<rparr>"
  let ?cd = "if b then cd * 2 else cd"
  have cd2: "0 \<le> ?cd" using Suc.prems by simp
  have step: "retry_loop m b exceptions func [a..m] cd le w =
      retry_loop m b exceptions func [a + 1..m] ?cd (Some e) ?w2"
    using e s' am Suc.prems by (simp add: up invoke_op_def time_sleep_def)
  have IH: "retry_loop m b exceptions func [a + 1..m] ?cd (Some e) ?w2 = 
      (fst (func (after_invocations func k (op_state ?w2))),
       \<lparr>op_state = after_invocations func (Suc k) (op_state ?w2),
        invocations = invocations ?w2 + Suc k,
        sleeps = sleeps ?w2 @ map (\<lambda>j. ?cd * (if b then 2 ^ j else 1)) [0..<k]\<rparr>)"
    by (rule Suc.IH[OF k cd2])
  have m: "map (\<lambda>j. cd * (if b then 2 ^ j else 1)) [0..<Suc k] =
     cd # map (\<lambda>j. ?cd * (if b then 2 ^ j else 1)) [0..<k]"
    by (simp add: upt_rec[of 0 "Suc k"] map_Suc_upt[symmetric] del: upt_Suc)
  show ?case
    unfolding step IH
    using s' by (simp only: m) (simp add: after_invocations_Suc)
qed

text \<open>
  Claim C5. With \<open>max_attempts = n\<close>, \<open>n \<ge> 1\<close>, an initial delay \<open>d\<close> (a duration: not
  negative) and an operation that fails on every invocation with an error the wrapper
  retries: the operation is invoked exactly \<open>n\<close> times; the error raised in the end is
  the error of the \<open>n\<close>-th invocation; there are exactly \<open>n - 1\<close> sleeps; with
  \<open>exponential_backoff\<close> the \<open>k\<close>-th sleep lasts \<open>d * 2 ^ (k - 1)\<close>, and without it
  every sleep lasts \<open>d\<close>.
\<close>

theorem retry_exhausts_attempts:
  assumes "1 \<le> n" and "0 \<le> d" and "always_fails exceptions func"
  shows "invocations (snd (retry (int n) d b exceptions func s0)) = n
    \<and> fst (retry (int n) d b exceptions func s0)
        = fst (func (after_invocations func (n - 1) s0))
    \<and> (\<exists>e. fst (retry (int n) d b exceptions func s0) = Inl e \<and> catches exceptions e)
    \<and> length (sleeps (snd (retry (int n) d b exceptions func s0))) = n - 1
    \<and> (b \<longrightarrow> sleeps (snd (retry (int n) d b exceptions func s0))
                = map (\<lambda>k. d * 2 ^ (k - 1)) [1..<n])
    \<and> (\<not> b \<longrightarrow> sleeps (snd (retry (int n) d b exceptions func s0)) = replicate (n - 1) d)"
proof -
  let ?w0 = "\<lparr>op_state = s0, invocations = 0, sleeps = []\<rparr>"
  have k: "nat (int n - 1) = n - 1" using assms(1) by simp
  have le: "(1::int) \<le> int n" using assms(1) by simp
  have run: "retry (int n) d b exceptions func s0 =
      (fst (func (after_invocations func (n - 1) s0)),
       \<lparr>op_state = after_invocations func (Suc (n - 1)) s0,
        invocations = Suc (n - 1),
        sleeps = map (\<lambda>j. d * (if b then 2 ^ j else 1)) [0..<n - 1]\<rparr>)"
    unfolding retry_def
    using retry_loop_always_fails[OF assms(3) assms(2) k le, of b None ?w0] by simp
  obtain e where e: "fst (func (after_invocations func (n - 1) s0)) = Inl e"
      "catches exceptions e"
    using assms(3) by (auto simp: always_fails_def)
  have shift: "[1..<n] = map Suc [0..<n - 1]"
    using assms(1) by (simp add: map_Suc_upt)
  have pow: "map (\<lambda>k. d * 2 ^ (k - 1)) [1..<n] = map (\<lambda>j. d * 2 ^ j) [0..<n - 1]"
    unfolding shift by (simp add: comp_def)
  have const: "map (\<lambda>j. d) [0..<n - 1] = replicate (n - 1) d"
    by (simp add: map_replicate_const)
  have s1: "sleeps (snd (retry (int n) d b exceptions func s0))
      = map (\<lambda>k. d * 2 ^ (k - 1)) [1..<n]" if b
    by (simp only: run pow) (simp add: that)
  have s2: "sleeps (snd (retry (int n) d b exceptions func s0)) = replicate (n - 1) d"
    if "\<not> b"
    by (simp only: run const[symmetric]) (simp add: that)
  have inv: "invocations (snd (retry (int n) d b exceptions func s0)) = n"
    using assms(1) by (simp add: run)
  have len: "length (sleeps (snd (retry (int n) d b exceptions func s0))) = n - 1"
    by (simp add: run)
  have res: "fst (retry (int n) d b exceptions func s0)
      = fst (func (after_invocations func (n - 1) s0))"
    by (simp add: run)
  from inv res e len s1 s2 show ?thesis by simp
qed

theorem retry_exhausts_attempts_witness:
  "always_fails [''Exception''] flaky
   \<and> invocations (snd (retry 3 1 True [''Exception''] flaky 0)) = 3
   \<and> fst (retry 3 1 True [''Exception''] flaky 0)
       = Inl (PyExc ''ConnectionError'' [''OSError'', ''Exception'', ''BaseException'']
               ''attempt III'')
   \<and> sleeps (snd (retry 3 1 True [''Exception''] flaky 0)) = [1, 2]"
proof -
  have fails: "always_fails [''Exception''] flaky"
    by (simp add: always_fails_def flaky_def catches_def isinstance_def)
  have n: "1 \<le> (3::nat)" and d: "0 \<le> (1::real)" by simp_all
  have third: "fst (flaky (after_invocations flaky (3 - 1) 0))
      = Inl (PyExc ''ConnectionError'' [''OSError'', ''Exception'', ''BaseException'']
               ''attempt III'')"
    by (simp add: after_invocations_def flaky_def eval_nat_numeral)
  have sl: "map (\<lambda>k. (1::real) * 2 ^ (k - 1)) [1..<3] = [1, 2]"
    by (simp add: upt_rec eval_nat_numeral)
  from retry_exhausts_attempts[OF n d fails, of True 0] fails third sl
  show ?thesis by simp
qed

section \<open>Properties: the merge of a partial update\<close>

text \<open>
  Claim C4. For every state \<open>s\<close> and partial update \<open>p\<close>, the merged state agrees with
  \<open>s\<close> on every key that is not in \<open>p\<close> and with \<open>p\<close> on every key that is in \<open>p\<close>; no key
  of \<open>s\<close> is deleted; merging the same update a second time changes nothing; and a list
  under \<open>errors\<close> in the update replaces the prior list (it is not appended to it).
\<close>

theorem merge_overwrites_per_key:
  "(\<forall>k. k \<notin> dom p \<longrightarrow> merge s p k = s k)
   \<and> (\<forall>k. k \<in> dom p \<longrightarrow> merge s p k = p k)
   \<and> dom s \<subseteq> dom (merge s p)
   \<and> merge (merge s p) p = merge s p
   \<and> (p ''errors'' = Some (PList new_errors) \<longrightarrow>
        merge s p ''errors'' = Some (PList new_errors))"
proof -
  have 1: "\<forall>k. k \<notin> dom p \<longrightarrow> merge s p k = s k"
    by (simp add: merge_def map_add_dom_app_simps)
  have 2: "\<forall>k. k \<in> dom p \<longrightarrow> merge s p k = p k"
    by (simp add: merge_def map_add_dom_app_simps)
  have 3: "dom s \<subseteq> dom (merge s p)"
    by (auto simp: merge_def)
  have 4: "merge (merge s p) p = merge s p"
    by (rule ext) (simp add: merge_def map_add_def split: option.split)
  have 5: "merge s p ''errors'' = Some (PList new_errors)"
    if "p ''errors'' = Some (PList new_errors)"
    using that by (simp add: merge_def map_add_Some_iff)
  from 1 2 3 4 5 show ?thesis by blast
qed

theorem merge_overwrites_per_key_witness:
  "merge [''repo_url'' \<mapsto> PStr ''u'', ''errors'' \<mapsto> PList [PStr ''clone failed'']]
         [''errors'' \<mapsto> PList [PStr ''coverage failed''], ''status'' \<mapsto> PStr ''failed'']
         ''errors''
     = Some (PList [PStr ''coverage failed''])
   \<and> merge [''repo_url'' \<mapsto> PStr ''u'', ''errors'' \<mapsto> PList [PStr ''clone failed'']]
         [''errors'' \<mapsto> PList [PStr ''coverage failed''], ''status'' \<mapsto> PStr ''failed'']
         ''repo_url''
     = Some (PStr ''u'')"
proof -
  let ?s = "[''repo_url'' \<mapsto> PStr ''u'', ''errors'' \<mapsto> PList [PStr ''clone failed'']]"
  let ?p = "[''errors'' \<mapsto> PList [PStr ''coverage failed''], ''status'' \<mapsto> PStr ''failed'']"
  note claim = merge_overwrites_per_key[of ?p ?s "[PStr ''coverage failed'']"]
  have a: "?p ''errors'' = Some (PList [PStr ''coverage failed''])" by simp
  have b: "''repo_url'' \<notin> dom ?p" by simp
  from claim a have "merge ?s ?p ''errors'' = Some (PList [PStr ''coverage failed''])" by blast
  moreover from claim b have "merge ?s ?p ''repo_url'' = ?s ''repo_url''" by blast
  ultimately show ?thesis by simp
qed

section \<open>Properties: the graph, its router and its runs\<close>

lemma router_labels:
  "should_generate_tests s = Inr label \<Longrightarrow> label = ''analyze_code'' \<or> label = ''end''"
  by (auto simp: should_generate_tests_def Let_def split: sum.splits if_splits)

lemma step_clone_repository:
  "exec_step (create_workflow_graph ev) ''clone_repository'' s =
     bind_exc (clone_repository_node ev s) (\<lambda>p. Inr (Node ''check_coverage'', merge s p))"
  by (simp add: exec_step_def next_target_def create_workflow_graph_def)

lemma step_check_coverage:
  "exec_step (create_workflow_graph ev) ''check_coverage'' s =
     bind_exc (check_coverage_node ev s) (\<lambda>p.
       bind_exc (should_generate_tests (merge s p)) (\<lambda>label.
         Inr (if label = ''analyze_code'' then Node ''analyze_code'' else END, merge s p)))"
proof (cases "check_coverage_node ev s")
  case (Inl e)
  then show ?thesis by (simp add: exec_step_def create_workflow_graph_def)
next
  case (Inr p)
  show ?thesis
  proof (cases "should_generate_tests (merge s p)")
    case (Inl e)
    then show ?thesis using Inr by (simp add: exec_step_def next_target_def create_workflow_graph_def)
  next
    case r: (Inr label)
    from router_labels[OF r] show ?thesis
      using Inr r by (auto simp: exec_step_def next_target_def create_workflow_graph_def)
  qed
qed

lemma step_analyze_code:
  "exec_step (create_workflow_graph ev) ''analyze_code'' s =
     bind_exc (analyze_code_node ev s) (\<lambda>p. Inr (Node ''generate_tests'', merge s p))"
  by (simp add: exec_step_def next_target_def create_workflow_graph_def)

lemma step_generate_tests:
  "exec_step (create_workflow_graph ev) ''generate_tests'' s =
     bind_exc (generate_tests_node ev s) (\<lambda>p. Inr (Node ''create_pr'', merge s p))"
  by (simp add: exec_step_def next_target_def create_workflow_graph_def)

lemma step_create_pr:
  "exec_step (create_workflow_graph ev) ''create_pr'' s =
     bind_exc (create_pr_node ev s) (\<lambda>p. Inr (END, merge s p))"
  by (simp add: exec_step_def next_target_def create_workflow_graph_def)

lemma py_lt_numeric:
  "num_of a = Some x \<Longrightarrow> num_of b = Some y \<Longrightarrow> py_lt a b = Inr (x < y)"
  by (cases a; cases b) auto

lemma router_numeric:
  assumes "s ''coverage_before'' = Some c" "s ''coverage_threshold'' = Some t"
    "num_of c = Some x" "num_of t = Some y"
  shows "should_generate_tests s = Inr (if x < y then ''analyze_code'' else ''end'')"
  using assms by (simp add: should_generate_tests_def get_default_def py_lt_numeric)

lemma create_workflow_graph_entry [simp]:
  "entry_point (create_workflow_graph ev) = ''clone_repository''"
  by (simp add: create_workflow_graph_def)

subsection \<open>Runs of the workflow graph\<close>

lemma invoke_ends_after_check:
  assumes "clone_repository_node ev s0 = Inr p0"
    and "check_coverage_node ev (merge s0 p0) = Inr p1"
    and "should_generate_tests (merge (merge s0 p0) p1) = Inr ''end''"
  shows "invoke (Suc (Suc fuel)) (create_workflow_graph ev) s0 =
     Some (Inr (merge (merge s0 p0) p1), [''clone_repository'', ''check_coverage''])"
  using assms
  by (simp add: invoke_def step_clone_repository step_check_coverage)

lemma invoke_runs_all_nodes:
  assumes "clone_repository_node ev s0 = Inr p0"
    and "check_coverage_node ev (merge s0 p0) = Inr p1"
    and "should_generate_tests (merge (merge s0 p0) p1) = Inr ''analyze_code''"
    and "analyze_code_node ev (merge (merge s0 p0) p1) = Inr p2"
    and "generate_tests_node ev (merge (merge (merge s0 p0) p1) p2) = Inr p3"
    and "create_pr_node ev (merge (merge (merge (merge s0 p0) p1) p2) p3) = Inr p4"
  shows "invoke (Suc (Suc (Suc (Suc (Suc fuel))))) (create_workflow_graph ev) s0 =
     Some (Inr (merge (merge (merge (merge (merge s0 p0) p1) p2) p3) p4),
           [''clone_repository'', ''check_coverage'', ''analyze_code'', ''generate_tests'',
            ''create_pr''])"
  using assms
  by (simp add: invoke_def step_clone_repository step_check_coverage step_analyze_code
      step_generate_tests step_create_pr)

lemma invoke_aborts_in_analysis:
  assumes "clone_repository_node ev s0 = Inr p0"
    and "check_coverage_node ev (merge s0 p0) = Inr p1"
    and "should_generate_tests (merge (merge s0 p0) p1) = Inr ''analyze_code''"
    and "analyze_code_node ev (merge (merge s0 p0) p1) = Inl e"
  shows "invoke (Suc (Suc (Suc fuel))) (create_workflow_graph ev) s0 =
     Some (Inl e, [''clone_repository'', ''check_coverage'', ''analyze_code''])"
  using assms
  by (simp add: invoke_def step_clone_repository step_check_coverage step_analyze_code)

lemma invoke_aborts_in_generation:
  assumes "clone_repository_node ev s0 = Inr p0"
    and "check_coverage_node ev (merge s0 p0) = Inr p1"
    and "should_generate_tests (merge (merge s0 p0) p1) = Inr ''analyze_code''"
    and "analyze_code_node ev (merge (merge s0 p0) p1) = Inr p2"
    and "generate_tests_node ev (merge (merge (merge s0 p0) p1) p2) = Inl e"
  shows "invoke (Suc (Suc (Suc (Suc fuel)))) (create_workflow_graph ev) s0 =
     Some (Inl e, [''clone_repository'', ''check_coverage'', ''analyze_code'',
                   ''generate_tests''])"
  using assms
  by (simp add: invoke_def step_clone_repository step_check_coverage step_analyze_code
      step_generate_tests)

lemma five: "(5::nat) = Suc (Suc (Suc (Suc (Suc 0))))"
  by simp

text \<open>Every run of the workflow graph ends within five steps.\<close>

lemma exec_create_pr_returns:
  "\<exists>r. exec (Suc fuel) (create_workflow_graph ev) (Node ''create_pr'') s tr = Some r"
  by (cases "create_pr_node ev s") (simp_all add: step_create_pr)

lemma exec_generate_tests_returns:
  "\<exists>r. exec (Suc (Suc fuel)) (create_workflow_graph ev) (Node ''generate_tests'') s tr = Some r"
  using exec_create_pr_returns
  by (cases "generate_tests_node ev s") (simp_all add: step_generate_tests)

lemma exec_analyze_code_returns:
  "\<exists>r. exec (Suc (Suc (Suc fuel))) (create_workflow_graph ev) (Node ''analyze_code'') s tr
         = Some r"
  using exec_generate_tests_returns
  by (cases "analyze_code_node ev s") (simp_all add: step_analyze_code)

lemma exec_check_coverage_returns:
  "\<exists>r. exec (Suc (Suc (Suc (Suc fuel)))) (create_workflow_graph ev) (Node ''check_coverage'')
           s tr = Some r"
proof (cases "check_coverage_node ev s")
  case (Inl e)
  then show ?thesis by (simp add: step_check_coverage)
next
  case (Inr p)
  show ?thesis
  proof (cases "should_generate_tests (merge s p)")
    case (Inl e)
    with Inr show ?thesis by (simp add: step_check_coverage)
  next
    case r: (Inr label)
    show ?thesis
    proof (cases "label = ''analyze_code''")
      case True
      with Inr r exec_analyze_code_returns show ?thesis by (simp add: step_check_coverage)
    next
      case False
      with Inr r show ?thesis by (simp add: step_check_coverage)
    qed
  qed
qed

lemma invoke_returns:
  "\<exists>r. invoke (Suc (Suc (Suc (Suc (Suc fuel))))) (create_workflow_graph ev) s = Some r"
  using exec_check_coverage_returns
  by (cases "clone_repository_node ev s") (simp_all add: invoke_def step_clone_repository)

lemma analyze_node_missing_repo_path:
  assumes "get_settings ev = Inr cfg" and "s ''repo_path'' = None"
  shows "analyze_code_node ev s = Inl (KeyError ''repo_path'')"
  using assms by (simp add: analyze_code_node_def getitem_def)

lemma generate_node_missing_test_candidates:
  assumes "get_settings ev = Inr cfg" and "llm_create ev = None"
    and "s ''test_candidates'' = None"
  shows "generate_tests_node ev s = Inl (KeyError ''test_candidates'')"
  using assms by (simp add: generate_tests_node_def getitem_def raise_if_def)

subsection \<open>The concrete steps, evaluated\<close>

lemma scenario_env_fields [simp]:
  "get_settings (scenario_env co sonar) = Inr cfg0"
  "git_execute (scenario_env co sonar) = git_fresh co"
  "sonar_execute (scenario_env co sonar) = sonar"
  "analyzer_execute (scenario_env co sonar) = analyzer_ok"
  "test_gen_execute (scenario_env co sonar) = test_gen_ok"
  "pr_execute (scenario_env co sonar) = pr_down"
  "llm_create (scenario_env co sonar) = None"
  "pr_agent_init (scenario_env co sonar) = None"
  "now_timestamp (scenario_env co sonar) = ''20240101-000000''"
  by (simp_all add: scenario_env_def)

lemma review_env_fields [simp]:
  "get_settings (review_env sonar) = Inr cfg0"
  "git_execute (review_env sonar) = git_ok"
  "sonar_execute (review_env sonar) = sonar"
  "analyzer_execute (review_env sonar) = analyzer_ok"
  "test_gen_execute (review_env sonar) = test_gen_ok"
  "pr_execute (review_env sonar) = pr_ok"
  "llm_create (review_env sonar) = None"
  "pr_agent_init (review_env sonar) = None"
  "now_timestamp (review_env sonar) = ''20240101-000000''"
  by (simp_all add: review_env_def)

lemma failed_analysis_env_fields [simp]:
  "get_settings failed_analysis_env = Inr cfg0"
  "git_execute failed_analysis_env = git_fresh None"
  "sonar_execute failed_analysis_env = sonar_reports 60"
  "analyzer_execute failed_analysis_env = analyzer_fails"
  "test_gen_execute failed_analysis_env = test_gen_ok"
  "llm_create failed_analysis_env = None"
  by (simp_all add: failed_analysis_env_def)

lemma state0_fields [simp]:
  "state0 t ''repo_url'' = Some (PStr ''https://h/r.git'')"
  "state0 t ''sonar_project_key'' = Some (PStr ''k'')"
  "state0 t ''coverage_threshold'' = Some (PInt t)"
  "state0 t ''coverage_before'' = None"
  "state0 t ''repo_path'' = None"
  "state0 t ''test_candidates'' = None"
  "state0 t ''status'' = None"
  "state0 t ''errors'' = Some (PList [])"
  by (simp_all add: state0_def initial_state_def request0_def)

lemma repo_name_r: "str_replace ''.git'' [] ''r.git'' = ''r''"
  by (simp add: str_replace_def)

lemma clone_node_fresh_ok:
  assumes "get_settings ev = Inr cfg0" and "git_execute ev = git_fresh None"
    and "s ''repo_url'' = Some (PStr ''https://h/r.git'')"
  shows "clone_repository_node ev s =
     Inr [''repo_path'' \<mapsto> PStr ''workspaces/r'', ''current_step'' \<mapsto> PStr ''clone'',
          ''repository_id'' \<mapsto> PStr ''r'']"
  using assms
  by (simp add: clone_repository_node_def getitem_def repo_name_r Let_def workspace_path_def
      BaseAgent_run_def git_fresh_def get_default_def AgentResult_init_def or_empty_def
      is_success_def)

lemma clone_node_git_ok:
  assumes "get_settings ev = Inr cfg0" and "git_execute ev = git_ok"
    and "s ''repo_url'' = Some (PStr ''https://h/r.git'')"
  shows "clone_repository_node ev s =
     Inr [''repo_path'' \<mapsto> PStr ''workspaces/r'', ''current_step'' \<mapsto> PStr ''clone'',
          ''repository_id'' \<mapsto> PStr ''r'']"
  using assms
  by (simp add: clone_repository_node_def getitem_def repo_name_r Let_def workspace_path_def
      BaseAgent_run_def git_ok_def get_default_def AgentResult_init_def or_empty_def
      is_success_def)

lemma clone_node_fails:
  assumes "get_settings ev = Inr cfg0" and "git_execute ev = git_fresh (Some clone_failure)"
    and "s ''repo_url'' = Some (PStr ''https://h/r.git'')"
  shows "clone_repository_node ev s =
     Inr [''errors'' \<mapsto> PList [PStr ''Failed to clone repository: no route to host''],
          ''status'' \<mapsto> PStr ''failed'', ''current_step'' \<mapsto> PStr ''clone'']"
  using assms
  by (simp add: clone_repository_node_def getitem_def repo_name_r Let_def workspace_path_def
      BaseAgent_run_def git_fresh_def get_default_def AgentResult_init_def or_empty_def
      is_success_def clone_failure_def AgentError_def isinstance_def failed_update_def
      error_val_def)

lemma sonar_reports_result:
  "sonar_reports c [''project_key'' \<mapsto> pk] =
     Inr \<lparr>status = SUCCESS,
          data = [''project_key'' \<mapsto> pk, ''coverage'' \<mapsto> PFloat c,
                  ''metrics'' \<mapsto> PDict [(''coverage'', PFloat c)],
                  ''uncovered_lines'' \<mapsto> PInt 0, ''uncovered_files'' \<mapsto> PList []],
          error = None, metadata = [''sonar_url'' \<mapsto> PStr ''http://sonar'']\<rparr>"
  by (simp add: sonar_reports_def SonarQubeAgent_execute_def validate_context_def
      missing_keys_def getitem_def metrics_of_def no_details_def get_default_def
      AgentResult_init_def or_empty_def)

lemma sonar_down_result:
  "sonar_down [''project_key'' \<mapsto> pk] =
     Inl (AgentError ''SonarQube API error: Failed to fetch metrics: timed out'')"
  by (simp add: sonar_down_def SonarQubeAgent_execute_def validate_context_def
      missing_keys_def getitem_def metrics_unreachable_def AgentError_def isinstance_def)

lemma check_node_reports:
  assumes "get_settings ev = Inr cfg0" and "sonar_execute ev = sonar_reports c"
    and "s ''sonar_project_key'' = Some (PStr ''k'')"
  shows "check_coverage_node ev s =
     Inr [''coverage_before'' \<mapsto> PFloat c,
          ''coverage_metrics'' \<mapsto> PDict [(''coverage'', PFloat c)],
          ''uncovered_files'' \<mapsto> PList [], ''current_step'' \<mapsto> PStr ''check_coverage'']"
  using assms
  by (simp add: check_coverage_node_def getitem_def BaseAgent_run_def sonar_reports_result
      is_success_def)

lemma check_node_down:
  assumes "get_settings ev = Inr cfg0" and "sonar_execute ev = sonar_down"
    and "s ''sonar_project_key'' = Some (PStr ''k'')"
  shows "check_coverage_node ev s =
     Inr [''errors'' \<mapsto>
            PList [PStr ''SonarQube API error: Failed to fetch metrics: timed out''],
          ''status'' \<mapsto> PStr ''failed'', ''current_step'' \<mapsto> PStr ''check_coverage'']"
  using assms
  by (simp add: check_coverage_node_def getitem_def BaseAgent_run_def sonar_down_result
      is_success_def AgentError_def isinstance_def AgentResult_init_def failed_update_def
      error_val_def)

lemma analyze_node_ok:
  assumes "get_settings ev = Inr cfg0" and "analyzer_execute ev = analyzer_ok"
    and "s ''repo_path'' = Some (PStr ''workspaces/r'')"
  shows "analyze_code_node ev s =
     Inr [''test_candidates'' \<mapsto> PList [], ''current_step'' \<mapsto> PStr ''analyze_code'']"
  using assms
  by (simp add: analyze_code_node_def getitem_def BaseAgent_run_def analyzer_ok_def
      AgentResult_init_def or_empty_def is_success_def)

lemma generate_node_ok:
  assumes "get_settings ev = Inr cfg0" and "llm_create ev = None"
    and "test_gen_execute ev = test_gen_ok"
    and "s ''repo_path'' = Some (PStr ''workspaces/r'')"
    and "s ''test_candidates'' = Some (PList [])"
  shows "generate_tests_node ev s =
     Inr [''generated_tests'' \<mapsto> PList [], ''test_files'' \<mapsto> PList [],
          ''current_step'' \<mapsto> PStr ''generate_tests'']"
  using assms
  by (simp add: generate_tests_node_def getitem_def BaseAgent_run_def test_gen_ok_def
      AgentResult_init_def or_empty_def is_success_def raise_if_def)

lemma create_pr_node_fresh_git:
  assumes "get_settings ev = Inr cfg0" and "git_execute ev = git_fresh co"
  shows "create_pr_node ev s =
     Inr [''errors'' \<mapsto> PList [PStr ''Repository not initialized. Run clone operation first.''],
          ''status'' \<mapsto> PStr ''failed'', ''current_step'' \<mapsto> PStr ''create_pr'']"
  using assms
  by (simp add: create_pr_node_def BaseAgent_run_def git_fresh_def get_default_def
      AgentError_def isinstance_def AgentResult_init_def is_success_def failed_update_def
      error_val_def Let_def)

lemma create_pr_node_ok:
  assumes "get_settings ev = Inr cfg0" and "git_execute ev = git_ok"
    and "pr_execute ev = pr_ok" and "pr_agent_init ev = None"
    and "now_timestamp ev = ''20240101-000000''"
    and "s ''test_files'' = Some (PList [])" and "s ''repository_id'' = Some (PStr ''r'')"
  shows "create_pr_node ev s =
     Inr [''branch_name'' \<mapsto> PStr ''coverage-improvement-20240101-000000'',
          ''pr_id'' \<mapsto> PInt 7, ''pr_url'' \<mapsto> PStr ''https://h/pr/7'',
          ''status'' \<mapsto> PStr ''success'', ''current_step'' \<mapsto> PStr ''create_pr'']"
  using assms
  by (simp add: create_pr_node_def BaseAgent_run_def git_ok_def pr_ok_def get_default_def
      getitem_def AgentResult_init_def or_empty_def is_success_def raise_if_def cfg0_def
      Let_def)

lemma analyze_node_reports_failure:
  assumes "get_settings ev = Inr cfg0" and "analyzer_execute ev = analyzer_fails"
    and "s ''repo_path'' = Some (PStr ''workspaces/r'')"
  shows "analyze_code_node ev s =
     Inr [''errors'' \<mapsto> PList [PStr (''Analysis error: '' @ quoted ''path'')],
          ''status'' \<mapsto> PStr ''failed'', ''current_step'' \<mapsto> PStr ''analyze_code'']"
  using assms
  by (simp add: analyze_code_node_def getitem_def BaseAgent_run_def analyzer_fails_def
      AgentError_def isinstance_def AgentResult_init_def is_success_def failed_update_def
      error_val_def)

section \<open>Properties: the invariant of results\<close>

text \<open>
  Claim C8 as stated fails for direct construction: the constructor takes any status
  with any error, so a \<open>FAILED\<close> result without an error and a \<open>SUCCESS\<close> result with
  one can both be built.
\<close>

theorem constructed_failed_result_without_error:
  "status (AgentResult_init FAILED None None None) = FAILED
   \<and> error (AgentResult_init FAILED None None None) = None
   \<and> status (AgentResult_init SUCCESS None (Some ''late'') None) = SUCCESS
   \<and> error (AgentResult_init SUCCESS None (Some ''late'') None) = Some ''late''"
  by (simp add: AgentResult_init_def)

lemma sonar_result_success:
  assumes "SonarQubeAgent_execute url fm fd ctx = Inr r"
  shows "status r = SUCCESS \<and> error r = None"
  using assms
  by (auto simp: SonarQubeAgent_execute_def bind_exc_def AgentResult_init_def
           split: sum.splits if_splits)

text \<open>
  Claim C8, as amended. A result the \<open>run\<close> wrapper builds from an exception has status
  \<open>FAILED\<close> and the error present; a result \<open>execute\<close> returns is passed through
  unchanged; and every result \<open>run\<close> returns for the coverage step has its error
  present exactly when its status is \<open>FAILED\<close>.
\<close>

theorem run_results_error_iff_failed:
  "(execute ctx = Inl e \<and> BaseAgent_run execute ctx = Inr r \<longrightarrow>
      status r = FAILED \<and> error r = Some (exc_str e))
   \<and> (execute ctx = Inr r' \<and> BaseAgent_run execute ctx = Inr r \<longrightarrow> r = r')
   \<and> (BaseAgent_run (SonarQubeAgent_execute url fm fd) ctx = Inr r \<longrightarrow> error_iff_failed r)"
proof -
  have 1: "status r = FAILED \<and> error r = Some (exc_str e)"
    if "execute ctx = Inl e \<and> BaseAgent_run execute ctx = Inr r"
    using that by (auto simp: BaseAgent_run_def AgentResult_init_def split: if_splits)
  have 2: "r = r'" if "execute ctx = Inr r' \<and> BaseAgent_run execute ctx = Inr r"
    using that by (auto simp: BaseAgent_run_def)
  have 3: "error_iff_failed r"
    if a: "BaseAgent_run (SonarQubeAgent_execute url fm fd) ctx = Inr r"
  proof (cases "SonarQubeAgent_execute url fm fd ctx")
    case (Inl e)
    with a show ?thesis
      by (auto simp: BaseAgent_run_def AgentResult_init_def error_iff_failed_def split: if_splits)
  next
    case (Inr r')
    with a have "r = r'" by (simp add: BaseAgent_run_def)
    with sonar_result_success[OF Inr] show ?thesis by (simp add: error_iff_failed_def)
  qed
  from 1 2 3 show ?thesis by blast
qed

theorem run_results_error_iff_failed_witness:
  "BaseAgent_run sonar_down [''project_key'' \<mapsto> PStr ''k''] =
     Inr \<lparr>status = FAILED, data = Map.empty,
          error = Some ''SonarQube API error: Failed to fetch metrics: timed out'',
          metadata = [''exception_type'' \<mapsto> PStr ''AgentError'']\<rparr>
   \<and> error_iff_failed
       \<lparr>status = FAILED, data = Map.empty,
        error = Some ''SonarQube API error: Failed to fetch metrics: timed out'',
        metadata = [''exception_type'' \<mapsto> PStr ''AgentError'']\<rparr>"
proof -
  let ?r = "\<lparr>status = FAILED, data = Map.empty,
        error = Some ''SonarQube API error: Failed to fetch metrics: timed out'',
        metadata = [''exception_type'' \<mapsto> PStr ''AgentError'']\<rparr>"
  have h: "BaseAgent_run (SonarQubeAgent_execute ''http://sonar'' metrics_unreachable no_details)
      [''project_key'' \<mapsto> PStr ''k''] = Inr ?r"
    using sonar_down_result[of "PStr ''k''"]
    by (simp add: sonar_down_def BaseAgent_run_def AgentError_def isinstance_def
        AgentResult_init_def or_empty_def)
  from run_results_error_iff_failed[where url = "''http://sonar''" and fm = metrics_unreachable
      and fd = no_details and ctx = "[''project_key'' \<mapsto> PStr ''k'']" and r = ?r] h
  show ?thesis by (simp add: sonar_down_def)
qed

section \<open>Properties: the router and the runs after it\<close>

text \<open>
  The router decides by the comparison: for every state whose \<open>coverage_before\<close> and
  \<open>coverage_threshold\<close> (or the defaults 0 and 90 that stand in for an absent one) are
  numbers, it returns \<open>analyze_code\<close> when the coverage is strictly less than the
  threshold and \<open>end\<close> otherwise.
\<close>

lemma router_decides_by_comparison:
  assumes "num_of (get_default s ''coverage_before'' (PInt 0)) = Some x"
    and "num_of (get_default s ''coverage_threshold'' (PInt 90)) = Some y"
  shows "should_generate_tests s = Inr (if x < y then ''analyze_code'' else ''end'')"
  using assms by (simp add: should_generate_tests_def py_lt_numeric)

text \<open>
  A run whose coverage-check node leaves a coverage that is not below the threshold
  (95 against 90, say) ends after that node: no later node executes.
\<close>

lemma sufficient_coverage_ends_the_run:
  assumes "clone_repository_node ev s0 = Inr p0"
    and "check_coverage_node ev (merge s0 p0) = Inr p1"
    and "merge (merge s0 p0) p1 ''coverage_before'' = Some c"
    and "merge (merge s0 p0) p1 ''coverage_threshold'' = Some t"
    and "num_of c = Some x" and "num_of t = Some y" and "\<not> x < y"
  shows "invoke (Suc (Suc fuel)) (create_workflow_graph ev) s0 =
     Some (Inr (merge (merge s0 p0) p1), [''clone_repository'', ''check_coverage''])"
proof -
  from assms have "should_generate_tests (merge (merge s0 p0) p1) = Inr ''end''"
    by (simp add: router_numeric)
  with assms(1,2) show ?thesis by (rule invoke_ends_after_check)
qed

text \<open>
  With a coverage below the threshold the executor always goes on to \<open>analyze_code\<close>.
\<close>

lemma low_coverage_continues_with_analysis:
  assumes "check_coverage_node ev s = Inr p"
    and "merge s p ''coverage_before'' = Some c"
    and "merge s p ''coverage_threshold'' = Some t"
    and "num_of c = Some x" and "num_of t = Some y" and "x < y"
  shows "exec_step (create_workflow_graph ev) ''check_coverage'' s
     = Inr (Node ''analyze_code'', merge s p)"
proof -
  from assms have "should_generate_tests (merge s p) = Inr ''analyze_code''"
    by (simp add: router_numeric)
  with assms(1) show ?thesis by (simp add: step_check_coverage)
qed

text \<open>
  Two runs with every step but the review succeeding: with the coverage 95 against the
  threshold 90 the run ends after the coverage check, with 60 against 90 it executes the
  five nodes in order.
\<close>

lemma runs_with_successful_steps:
  "executed (invoke 5 (create_workflow_graph (scenario_env None (sonar_reports 95)))
       (state0 90))
     = Some [''clone_repository'', ''check_coverage'']
   \<and> executed (invoke 5 (create_workflow_graph (scenario_env None (sonar_reports 60)))
       (state0 90))
     = Some [''clone_repository'', ''check_coverage'', ''analyze_code'', ''generate_tests'',
             ''create_pr'']"
proof -
  let ?p0 = "[''repo_path'' \<mapsto> PStr ''workspaces/r'', ''current_step'' \<mapsto> PStr ''clone'',
              ''repository_id'' \<mapsto> PStr ''r'']"
  let ?p1 = "\<lambda>c. [''coverage_before'' \<mapsto> PFloat c,
              ''coverage_metrics'' \<mapsto> PDict [(''coverage'', PFloat c)],
              ''uncovered_files'' \<mapsto> PList [], ''current_step'' \<mapsto> PStr ''check_coverage'']"
  let ?p2 = "[''test_candidates'' \<mapsto> PList [], ''current_step'' \<mapsto> PStr ''analyze_code'']"
  let ?p3 = "[''generated_tests'' \<mapsto> PList [], ''test_files'' \<mapsto> PList [],
              ''current_step'' \<mapsto> PStr ''generate_tests'']"
  let ?p4 = "[''errors'' \<mapsto> PList [PStr ''Repository not initialized. Run clone operation first.''],
              ''status'' \<mapsto> PStr ''failed'', ''current_step'' \<mapsto> PStr ''create_pr'']"
  have clone: "clone_repository_node (scenario_env None (sonar_reports c)) (state0 90)
      = Inr ?p0" for c
    by (rule clone_node_fresh_ok) simp_all
  have check: "check_coverage_node (scenario_env None (sonar_reports c)) (merge (state0 90) ?p0)
      = Inr (?p1 c)" for c
    by (rule check_node_reports) (simp_all add: merge_def)
  have r95: "should_generate_tests (merge (merge (state0 90) ?p0) (?p1 95)) = Inr ''end''"
    by (simp add: router_numeric[where c = "PFloat 95" and t = "PInt 90"] merge_def)
  have r60: "should_generate_tests (merge (merge (state0 90) ?p0) (?p1 60))
      = Inr ''analyze_code''"
    by (simp add: router_numeric[where c = "PFloat 60" and t = "PInt 90"] merge_def)
  have analyze: "analyze_code_node (scenario_env None (sonar_reports 60))
      (merge (merge (state0 90) ?p0) (?p1 60)) = Inr ?p2"
    by (rule analyze_node_ok) (simp_all add: merge_def)
  have generate: "generate_tests_node (scenario_env None (sonar_reports 60))
      (merge (merge (merge (state0 90) ?p0) (?p1 60)) ?p2) = Inr ?p3"
    by (rule generate_node_ok) (simp_all add: merge_def)
  have review: "create_pr_node (scenario_env None (sonar_reports 60))
      (merge (merge (merge (merge (state0 90) ?p0) (?p1 60)) ?p2) ?p3) = Inr ?p4"
    by (rule create_pr_node_fresh_git[where co = None]) simp_all
  have a: "invoke 5 (create_workflow_graph (scenario_env None (sonar_reports 95))) (state0 90)
      = Some (Inr (merge (merge (state0 90) ?p0) (?p1 95)),
              [''clone_repository'', ''check_coverage''])"
    unfolding five by (rule invoke_ends_after_check[OF clone check r95])
  have b: "invoke 5 (create_workflow_graph (scenario_env None (sonar_reports 60))) (state0 90)
      = Some (Inr (merge (merge (merge (merge (merge (state0 90) ?p0) (?p1 60)) ?p2) ?p3) ?p4),
              [''clone_repository'', ''check_coverage'', ''analyze_code'', ''generate_tests'',
               ''create_pr''])"
    unfolding five by (rule invoke_runs_all_nodes[OF clone check r60 analyze generate review])
  show ?thesis unfolding a b by (simp add: executed_def)
qed

text \<open>
  Claim C1 says that with \<open>coverage_before = 60\<close> and \<open>coverage_threshold = 90\<close> the
  remaining nodes execute in the order \<open>analyze_code\<close>, \<open>generate_tests\<close>, \<open>create_pr\<close>.
  On the code they do not always. When the clone has succeeded, the coverage check
  leaves 60 against the threshold 90 and the analysis step fails, \<open>analyze_code\<close>
  returns its failure update, which has no \<open>test_candidates\<close>; \<open>generate_tests\<close> then
  raises \<open>KeyError\<close> and the run is aborted: \<open>create_pr\<close> never executes. When the
  clone has failed, the run with the same coverage is aborted in \<open>analyze_code\<close>, and
  neither \<open>generate_tests\<close> nor \<open>create_pr\<close> executes.
\<close>

theorem low_coverage_run_stops_before_review:
  "exec_step (create_workflow_graph failed_analysis_env) ''check_coverage''
       (merge (state0 90)
          [''repo_path'' \<mapsto> PStr ''workspaces/r'', ''current_step'' \<mapsto> PStr ''clone'',
           ''repository_id'' \<mapsto> PStr ''r''])
     = Inr (Node ''analyze_code'',
            merge (merge (state0 90)
                     [''repo_path'' \<mapsto> PStr ''workspaces/r'',
                      ''current_step'' \<mapsto> PStr ''clone'', ''repository_id'' \<mapsto> PStr ''r''])
                  [''coverage_before'' \<mapsto> PFloat 60,
                   ''coverage_metrics'' \<mapsto> PDict [(''coverage'', PFloat 60)],
                   ''uncovered_files'' \<mapsto> PList [],
                   ''current_step'' \<mapsto> PStr ''check_coverage''])
   \<and> invoke 5 (create_workflow_graph failed_analysis_env) (state0 90)
     = Some (Inl (KeyError ''test_candidates''),
             [''clone_repository'', ''check_coverage'', ''analyze_code'', ''generate_tests''])
   \<and> executed (invoke 5 (create_workflow_graph
        (scenario_env (Some clone_failure) (sonar_reports 60))) (state0 90))
     = Some [''clone_repository'', ''check_coverage'', ''analyze_code'']"
proof -
  let ?p0 = "[''repo_path'' \<mapsto> PStr ''workspaces/r'', ''current_step'' \<mapsto> PStr ''clone'',
              ''repository_id'' \<mapsto> PStr ''r'']"
  let ?pf = "[''errors'' \<mapsto> PList [PStr ''Failed to clone repository: no route to host''],
              ''status'' \<mapsto> PStr ''failed'', ''current_step'' \<mapsto> PStr ''clone'']"
  let ?p1 = "[''coverage_before'' \<mapsto> PFloat 60,
              ''coverage_metrics'' \<mapsto> PDict [(''coverage'', PFloat 60)],
              ''uncovered_files'' \<mapsto> PList [], ''current_step'' \<mapsto> PStr ''check_coverage'']"
  let ?p2 = "[''errors'' \<mapsto> PList [PStr (''Analysis error: '' @ quoted ''path'')],
              ''status'' \<mapsto> PStr ''failed'', ''current_step'' \<mapsto> PStr ''analyze_code'']"
  \<comment> \<open>the analysis step fails\<close>
  have clone: "clone_repository_node failed_analysis_env (state0 90) = Inr ?p0"
    by (rule clone_node_fresh_ok) simp_all
  have check: "check_coverage_node failed_analysis_env (merge (state0 90) ?p0) = Inr ?p1"
    by (rule check_node_reports) (simp_all add: merge_def)
  have route: "should_generate_tests (merge (merge (state0 90) ?p0) ?p1) = Inr ''analyze_code''"
    by (simp add: router_numeric[where c = "PFloat 60" and t = "PInt 90"] merge_def)
  have analyze: "analyze_code_node failed_analysis_env (merge (merge (state0 90) ?p0) ?p1)
      = Inr ?p2"
    by (rule analyze_node_reports_failure) (simp_all add: merge_def)
  have generate: "generate_tests_node failed_analysis_env
      (merge (merge (merge (state0 90) ?p0) ?p1) ?p2) = Inl (KeyError ''test_candidates'')"
    by (rule generate_node_missing_test_candidates[where cfg = cfg0]) (simp_all add: merge_def)
  have step: "exec_step (create_workflow_graph failed_analysis_env) ''check_coverage''
      (merge (state0 90) ?p0) = Inr (Node ''analyze_code'', merge (merge (state0 90) ?p0) ?p1)"
    using check route by (simp add: step_check_coverage)
  have run1: "invoke 5 (create_workflow_graph failed_analysis_env) (state0 90)
      = Some (Inl (KeyError ''test_candidates''),
              [''clone_repository'', ''check_coverage'', ''analyze_code'', ''generate_tests''])"
    unfolding five by (rule invoke_aborts_in_generation[OF clone check route analyze generate])
  \<comment> \<open>the clone fails\<close>
  have clone2: "clone_repository_node (scenario_env (Some clone_failure) (sonar_reports 60))
      (state0 90) = Inr ?pf"
    by (rule clone_node_fails) simp_all
  have check2: "check_coverage_node (scenario_env (Some clone_failure) (sonar_reports 60))
      (merge (state0 90) ?pf) = Inr ?p1"
    by (rule check_node_reports) (simp_all add: merge_def)
  have route2: "should_generate_tests (merge (merge (state0 90) ?pf) ?p1) = Inr ''analyze_code''"
    by (simp add: router_numeric[where c = "PFloat 60" and t = "PInt 90"] merge_def)
  have analyze2: "analyze_code_node (scenario_env (Some clone_failure) (sonar_reports 60))
      (merge (merge (state0 90) ?pf) ?p1) = Inl (KeyError ''repo_path'')"
    by (rule analyze_node_missing_repo_path[where cfg = cfg0]) (simp_all add: merge_def)
  have run2: "invoke 5 (create_workflow_graph
        (scenario_env (Some clone_failure) (sonar_reports 60))) (state0 90)
      = Some (Inl (KeyError ''repo_path''),
              [''clone_repository'', ''check_coverage'', ''analyze_code''])"
    unfolding five by (rule invoke_aborts_in_analysis[OF clone2 check2 route2 analyze2])
  show ?thesis
    unfolding run1 run2 using step by (simp add: executed_def)
qed

section \<open>Properties: the router's defaults\<close>

text \<open>
  Claim C9. When \<open>coverage_before\<close> is absent the router decides as if it were 0, and
  when \<open>coverage_threshold\<close> is absent as if it were 90. Hence a state in which
  \<open>coverage_before\<close> is absent and the threshold is absent or positive is routed to
  \<open>analyze_code\<close>; in particular, when the coverage-check node returns its failure
  update on such a state, the executor goes on to \<open>analyze_code\<close>.
\<close>

theorem router_defaults_send_failed_coverage_to_analysis:
  "(s ''coverage_before'' = None \<longrightarrow>
      should_generate_tests s = should_generate_tests (s(''coverage_before'' \<mapsto> PInt 0)))
   \<and> (s ''coverage_threshold'' = None \<longrightarrow>
      should_generate_tests s = should_generate_tests (s(''coverage_threshold'' \<mapsto> PInt 90)))
   \<and> (s ''coverage_before'' = None
        \<and> (s ''coverage_threshold'' = None
            \<or> (\<exists>t y. s ''coverage_threshold'' = Some t \<and> num_of t = Some y \<and> 0 < y)) \<longrightarrow>
        should_generate_tests s = Inr ''analyze_code'')
   \<and> (s ''coverage_before'' = None
        \<and> (s ''coverage_threshold'' = None
            \<or> (\<exists>t y. s ''coverage_threshold'' = Some t \<and> num_of t = Some y \<and> 0 < y))
        \<and> check_coverage_node ev s = Inr (failed_update r ''check_coverage'') \<longrightarrow>
        exec_step (create_workflow_graph ev) ''check_coverage'' s =
          Inr (Node ''analyze_code'', merge s (failed_update r ''check_coverage'')))"
proof -
  have 1: "should_generate_tests s = should_generate_tests (s(''coverage_before'' \<mapsto> PInt 0))"
    if "s ''coverage_before'' = None"
    using that by (simp add: should_generate_tests_def get_default_def)
  have 2: "should_generate_tests s = should_generate_tests (s(''coverage_threshold'' \<mapsto> PInt 90))"
    if "s ''coverage_threshold'' = None"
    using that by (simp add: should_generate_tests_def get_default_def)
  have 3: "should_generate_tests s = Inr ''analyze_code''"
    if "s ''coverage_before'' = None
        \<and> (s ''coverage_threshold'' = None
            \<or> (\<exists>t y. s ''coverage_threshold'' = Some t \<and> num_of t = Some y \<and> 0 < y))" for s
    using that
    by (auto simp: should_generate_tests_def get_default_def
          py_lt_numeric[where a = "PInt 0" and x = 0])
  have 4: "exec_step (create_workflow_graph ev) ''check_coverage'' s =
          Inr (Node ''analyze_code'', merge s (failed_update r ''check_coverage''))"
    if h: "s ''coverage_before'' = None
        \<and> (s ''coverage_threshold'' = None
            \<or> (\<exists>t y. s ''coverage_threshold'' = Some t \<and> num_of t = Some y \<and> 0 < y))
        \<and> check_coverage_node ev s = Inr (failed_update r ''check_coverage'')"
  proof -
    let ?m = "merge s (failed_update r ''check_coverage'')"
    have "?m ''coverage_before'' = None" "?m ''coverage_threshold'' = s ''coverage_threshold''"
      using h by (simp_all add: merge_def failed_update_def map_add_def)
    with h have "should_generate_tests ?m = Inr ''analyze_code''"
      by (intro 3) simp
    with h show ?thesis by (simp add: step_check_coverage)
  qed
  from 1 2 3[of s] 4 show ?thesis by blast
qed


theorem router_defaults_send_failed_coverage_to_analysis_witness:
  "should_generate_tests Map.empty = Inr ''analyze_code''
   \<and> exec_step (create_workflow_graph (scenario_env None sonar_down)) ''check_coverage''
         (state0 90)
       = Inr (Node ''analyze_code'',
              merge (state0 90)
                (failed_update
                   \<lparr>status = FAILED, data = Map.empty,
                    error = Some ''SonarQube API error: Failed to fetch metrics: timed out'',
                    metadata = [''exception_type'' \<mapsto> PStr ''AgentError'']\<rparr>
                   ''check_coverage''))"
proof -
  let ?r = "\<lparr>status = FAILED, data = Map.empty,
             error = Some ''SonarQube API error: Failed to fetch metrics: timed out'',
             metadata = [''exception_type'' \<mapsto> PStr ''AgentError'']\<rparr>"
  have cov: "state0 90 ''coverage_before'' = None"
    by simp
  have thr: "\<exists>t y. state0 90 ''coverage_threshold'' = Some t \<and> num_of t = Some y \<and> 0 < y"
    by simp
  have "check_coverage_node (scenario_env None sonar_down) (state0 90) =
     Inr [''errors'' \<mapsto>
            PList [PStr ''SonarQube API error: Failed to fetch metrics: timed out''],
          ''status'' \<mapsto> PStr ''failed'', ''current_step'' \<mapsto> PStr ''check_coverage'']"
    by (rule check_node_down) simp_all
  then have node: "check_coverage_node (scenario_env None sonar_down) (state0 90)
      = Inr (failed_update ?r ''check_coverage'')"
    by (simp add: failed_update_def error_val_def)
  have e: "(Map.empty :: WorkflowState) ''coverage_before'' = None
      \<and> ((Map.empty :: WorkflowState) ''coverage_threshold'' = None
          \<or> (\<exists>t y. (Map.empty :: WorkflowState) ''coverage_threshold'' = Some t
                \<and> num_of t = Some y \<and> 0 < y))"
    by simp
  from router_defaults_send_failed_coverage_to_analysis[of Map.empty] e
  have a: "should_generate_tests Map.empty = Inr ''analyze_code''" by blast
  from router_defaults_send_failed_coverage_to_analysis
         [of "state0 90" "scenario_env None sonar_down" ?r] cov thr node
  have b: "exec_step (create_workflow_graph (scenario_env None sonar_down)) ''check_coverage''
         (state0 90) = Inr (Node ''analyze_code'', merge (state0 90) (failed_update ?r ''check_coverage''))"
    by blast
  from a b show ?thesis by simp
qed

section \<open>Properties: a failed clone\<close>

lemma node_returns_settings_loaded:
  "clone_repository_node ev s = Inr p \<Longrightarrow> \<exists>cfg. get_settings ev = Inr cfg"
  by (cases "get_settings ev") (simp_all add: clone_repository_node_def)

lemma sonar_validation_passes:
  "validate_context ''SonarQubeAgent'' [''project_key'' \<mapsto> pk] [''project_key''] = Inr ()"
  by (simp add: validate_context_def missing_keys_def)

lemma sonar_error_is_agent_error:
  assumes "SonarQubeAgent_execute url fm fd [''project_key'' \<mapsto> pk] = Inl e"
    and "isinstance e ''Exception''"
  shows "\<exists>cause. e = AgentError (''SonarQube API error: '' @ exc_str cause)"
  using assms
  by (auto simp: SonarQubeAgent_execute_def sonar_validation_passes getitem_def bind_exc_def
      split: sum.splits if_splits)

lemma sonar_success_data:
  assumes "SonarQubeAgent_execute url fm fd ctx = Inr r"
  shows "status r = SUCCESS \<and> data r ''coverage'' \<noteq> None \<and> data r ''metrics'' \<noteq> None
     \<and> data r ''uncovered_files'' \<noteq> None"
  using assms
  by (auto simp: SonarQubeAgent_execute_def bind_exc_def AgentResult_init_def or_empty_def
           split: sum.splits if_splits)

lemma check_node_with_sonar_failed:
  assumes "get_settings ev = Inr cfg" "s ''sonar_project_key'' = Some pk"
    and "sonar_execute ev = SonarQubeAgent_execute url fm fd"
    and "SonarQubeAgent_execute url fm fd [''project_key'' \<mapsto> pk] = Inl e"
    and "isinstance e ''Exception''"
  shows "check_coverage_node ev s =
     Inr [''errors'' \<mapsto> PList [PStr (exc_str e)], ''status'' \<mapsto> PStr ''failed'',
          ''current_step'' \<mapsto> PStr ''check_coverage'']"
  using assms
  by (simp add: check_coverage_node_def getitem_def BaseAgent_run_def AgentResult_init_def
      is_success_def failed_update_def error_val_def)

lemma check_node_with_sonar_ok:
  assumes "get_settings ev = Inr cfg" "s ''sonar_project_key'' = Some pk"
    and "sonar_execute ev = SonarQubeAgent_execute url fm fd"
    and "SonarQubeAgent_execute url fm fd [''project_key'' \<mapsto> pk] = Inr r"
  shows "\<exists>c m u. check_coverage_node ev s =
     Inr [''coverage_before'' \<mapsto> c, ''coverage_metrics'' \<mapsto> m, ''uncovered_files'' \<mapsto> u,
          ''current_step'' \<mapsto> PStr ''check_coverage'']"
proof -
  from sonar_success_data[OF assms(4)] obtain c m u where
    d: "status r = SUCCESS" "data r ''coverage'' = Some c" "data r ''metrics'' = Some m"
       "data r ''uncovered_files'' = Some u"
    by auto
  have "check_coverage_node ev s =
     Inr [''coverage_before'' \<mapsto> c, ''coverage_metrics'' \<mapsto> m, ''uncovered_files'' \<mapsto> u,
          ''current_step'' \<mapsto> PStr ''check_coverage'']"
    using assms d
    by (simp add: check_coverage_node_def getitem_def BaseAgent_run_def is_success_def)
  then show ?thesis by blast
qed

text \<open>
  Claim C3, as amended. When the clone node returns its failure update, the executor
  still goes on to the coverage-check node, with a state that lacks \<open>repo_path\<close> and
  holds the clone step's error as its one error. The coverage step validates the
  context the node hands it, which requires \<open>project_key\<close> only, and that validation
  passes. If the coverage step then fails, it fails with the \<open>AgentError\<close> of its
  fetches, and the state after the coverage-check node holds exactly one error, the
  coverage step's: it has replaced the clone step's. If the coverage step succeeds, the
  one error of the state is still the clone step's.
\<close>

theorem failed_clone_leaves_one_error:
  assumes clone: "clone_repository_node ev s0 = Inr (failed_update r1 ''clone'')"
    and no_path: "s0 ''repo_path'' = None"
    and key: "s0 ''sonar_project_key'' = Some pk"
    and sonar: "sonar_execute ev = SonarQubeAgent_execute url fm fd"
  shows "exec_step (create_workflow_graph ev) ''clone_repository'' s0
           = Inr (Node ''check_coverage'', merge s0 (failed_update r1 ''clone''))
    \<and> merge s0 (failed_update r1 ''clone'') ''repo_path'' = None
    \<and> merge s0 (failed_update r1 ''clone'') ''errors'' = Some (PList [error_val r1])
    \<and> validate_context ''SonarQubeAgent'' [''project_key'' \<mapsto> pk] [''project_key''] = Inr ()
    \<and> (\<forall>e. SonarQubeAgent_execute url fm fd [''project_key'' \<mapsto> pk] = Inl e
            \<and> isinstance e ''Exception'' \<longrightarrow>
          (\<exists>cause. e = AgentError (''SonarQube API error: '' @ exc_str cause))
          \<and> (\<exists>p. check_coverage_node ev (merge s0 (failed_update r1 ''clone'')) = Inr p
             \<and> merge (merge s0 (failed_update r1 ''clone'')) p ''errors''
                 = Some (PList [PStr (exc_str e)])))
    \<and> (\<forall>r. SonarQubeAgent_execute url fm fd [''project_key'' \<mapsto> pk] = Inr r \<longrightarrow>
          (\<exists>p. check_coverage_node ev (merge s0 (failed_update r1 ''clone'')) = Inr p
             \<and> merge (merge s0 (failed_update r1 ''clone'')) p ''errors''
                 = Some (PList [error_val r1])))"
proof -
  let ?s1 = "merge s0 (failed_update r1 ''clone'')"
  obtain cfg where cfg: "get_settings ev = Inr cfg"
    using node_returns_settings_loaded[OF clone] by blast
  have key1: "?s1 ''sonar_project_key'' = Some pk"
    using key by (simp add: merge_def failed_update_def)
  have 1: "exec_step (create_workflow_graph ev) ''clone_repository'' s0
           = Inr (Node ''check_coverage'', ?s1)"
    by (simp add: step_clone_repository clone)
  have 2: "?s1 ''repo_path'' = None"
    using no_path by (simp add: merge_def failed_update_def)
  have 3: "?s1 ''errors'' = Some (PList [error_val r1])"
    by (simp add: merge_def failed_update_def)
  have 5: "(\<exists>cause. e = AgentError (''SonarQube API error: '' @ exc_str cause))
          \<and> (\<exists>p. check_coverage_node ev ?s1 = Inr p
             \<and> merge ?s1 p ''errors'' = Some (PList [PStr (exc_str e)]))"
    if "SonarQubeAgent_execute url fm fd [''project_key'' \<mapsto> pk] = Inl e
            \<and> isinstance e ''Exception''" for e
    using check_node_with_sonar_failed[where s = ?s1, OF cfg key1 sonar] that
      sonar_error_is_agent_error[of url fm fd pk e]
    by (simp add: merge_def)
  have 6: "\<exists>p. check_coverage_node ev ?s1 = Inr p
             \<and> merge ?s1 p ''errors'' = Some (PList [error_val r1])"
    if h: "SonarQubeAgent_execute url fm fd [''project_key'' \<mapsto> pk] = Inr r" for r
  proof -
    from check_node_with_sonar_ok[where s = ?s1, OF cfg key1 sonar h]
    obtain c m u where p: "check_coverage_node ev ?s1 =
       Inr [''coverage_before'' \<mapsto> c, ''coverage_metrics'' \<mapsto> m, ''uncovered_files'' \<mapsto> u,
            ''current_step'' \<mapsto> PStr ''check_coverage'']"
      by blast
    show ?thesis unfolding p by (simp add: merge_def failed_update_def)
  qed
  from 1 2 3 5 6 show ?thesis by (simp add: sonar_validation_passes)
qed


text \<open>
  Claim C3 as stated fails. After a failed clone, with a coverage server that reports
  95 against the threshold 90, the coverage step succeeds (no validation error) and the
  run ends with one error, the clone step's. With a coverage server that cannot be
  reached (and the threshold 0, so that the run ends there), the run ends with one
  error, the coverage step's: the clone step's error is gone.
\<close>

theorem failed_clone_run_ends_with_one_error:
  "executed (invoke 5 (create_workflow_graph
        (scenario_env (Some clone_failure) (sonar_reports 95))) (state0 90))
     = Some [''clone_repository'', ''check_coverage'']
   \<and> final_value ''coverage_before'' (invoke 5 (create_workflow_graph
        (scenario_env (Some clone_failure) (sonar_reports 95))) (state0 90))
     = Some (Some (PFloat 95))
   \<and> final_value ''errors'' (invoke 5 (create_workflow_graph
        (scenario_env (Some clone_failure) (sonar_reports 95))) (state0 90))
     = Some (Some (PList [PStr ''Failed to clone repository: no route to host'']))
   \<and> executed (invoke 5 (create_workflow_graph
        (scenario_env (Some clone_failure) sonar_down)) (state0 0))
     = Some [''clone_repository'', ''check_coverage'']
   \<and> final_value ''errors'' (invoke 5 (create_workflow_graph
        (scenario_env (Some clone_failure) sonar_down)) (state0 0))
     = Some (Some (PList [PStr ''SonarQube API error: Failed to fetch metrics: timed out'']))"
proof -
  let ?pf = "[''errors'' \<mapsto> PList [PStr ''Failed to clone repository: no route to host''],
              ''status'' \<mapsto> PStr ''failed'', ''current_step'' \<mapsto> PStr ''clone'']"
  let ?p1 = "[''coverage_before'' \<mapsto> PFloat 95,
              ''coverage_metrics'' \<mapsto> PDict [(''coverage'', PFloat 95)],
              ''uncovered_files'' \<mapsto> PList [], ''current_step'' \<mapsto> PStr ''check_coverage'']"
  let ?pd = "[''errors'' \<mapsto>
                PList [PStr ''SonarQube API error: Failed to fetch metrics: timed out''],
              ''status'' \<mapsto> PStr ''failed'', ''current_step'' \<mapsto> PStr ''check_coverage'']"
  have clone: "clone_repository_node (scenario_env (Some clone_failure) sonar) (state0 t)
      = Inr ?pf" for sonar t
    by (rule clone_node_fails) simp_all
  have check1: "check_coverage_node (scenario_env (Some clone_failure) (sonar_reports 95))
      (merge (state0 90) ?pf) = Inr ?p1"
    by (rule check_node_reports) (simp_all add: merge_def)
  have route1: "should_generate_tests (merge (merge (state0 90) ?pf) ?p1) = Inr ''end''"
    by (simp add: router_numeric[where c = "PFloat 95" and t = "PInt 90"] merge_def)
  have run1: "invoke 5 (create_workflow_graph
        (scenario_env (Some clone_failure) (sonar_reports 95))) (state0 90)
      = Some (Inr (merge (merge (state0 90) ?pf) ?p1), [''clone_repository'', ''check_coverage''])"
    unfolding five by (rule invoke_ends_after_check[OF clone check1 route1])
  have check2: "check_coverage_node (scenario_env (Some clone_failure) sonar_down)
      (merge (state0 0) ?pf) = Inr ?pd"
    by (rule check_node_down) (simp_all add: merge_def)
  have route2: "should_generate_tests (merge (merge (state0 0) ?pf) ?pd) = Inr ''end''"
    by (simp add: should_generate_tests_def get_default_def merge_def)
  have run2: "invoke 5 (create_workflow_graph
        (scenario_env (Some clone_failure) sonar_down)) (state0 0)
      = Some (Inr (merge (merge (state0 0) ?pf) ?pd), [''clone_repository'', ''check_coverage''])"
    unfolding five by (rule invoke_ends_after_check[OF clone check2 route2])
  show ?thesis
    unfolding run1 run2 by (simp add: executed_def final_value_def merge_def)
qed

theorem failed_clone_leaves_one_error_witness:
  "exec_step (create_workflow_graph (scenario_env (Some clone_failure) sonar_down))
       ''clone_repository'' (state0 90)
     = Inr (Node ''check_coverage'',
            merge (state0 90)
              (failed_update
                 \<lparr>status = FAILED, data = Map.empty,
                  error = Some ''Failed to clone repository: no route to host'',
                  metadata = [''exception_type'' \<mapsto> PStr ''AgentError'']\<rparr> ''clone''))
   \<and> (\<exists>p. check_coverage_node (scenario_env (Some clone_failure) sonar_down)
              (merge (state0 90)
                 (failed_update
                    \<lparr>status = FAILED, data = Map.empty,
                     error = Some ''Failed to clone repository: no route to host'',
                     metadata = [''exception_type'' \<mapsto> PStr ''AgentError'']\<rparr> ''clone''))
            = Inr p
          \<and> merge (merge (state0 90)
                 (failed_update
                    \<lparr>status = FAILED, data = Map.empty,
                     error = Some ''Failed to clone repository: no route to host'',
                     metadata = [''exception_type'' \<mapsto> PStr ''AgentError'']\<rparr> ''clone''))
               p ''errors''
            = Some (PList [PStr ''SonarQube API error: Failed to fetch metrics: timed out'']))"
proof -
  let ?ev = "scenario_env (Some clone_failure) sonar_down"
  let ?r1 = "\<lparr>status = FAILED, data = Map.empty,
              error = Some ''Failed to clone repository: no route to host'',
              metadata = [''exception_type'' \<mapsto> PStr ''AgentError'']\<rparr>"
  let ?e = "AgentError ''SonarQube API error: Failed to fetch metrics: timed out''"
  have "clone_repository_node ?ev (state0 90) =
     Inr [''errors'' \<mapsto> PList [PStr ''Failed to clone repository: no route to host''],
          ''status'' \<mapsto> PStr ''failed'', ''current_step'' \<mapsto> PStr ''clone'']"
    by (rule clone_node_fails) simp_all
  then have clone: "clone_repository_node ?ev (state0 90) = Inr (failed_update ?r1 ''clone'')"
    by (simp add: failed_update_def error_val_def)
  have no_path: "state0 90 ''repo_path'' = None" and key: "state0 90 ''sonar_project_key'' = Some (PStr ''k'')"
    by simp_all
  have sonar: "sonar_execute ?ev
      = SonarQubeAgent_execute ''http://sonar'' metrics_unreachable no_details"
    by (simp add: sonar_down_def)
  have down: "SonarQubeAgent_execute ''http://sonar'' metrics_unreachable no_details
      [''project_key'' \<mapsto> PStr ''k''] = Inl ?e \<and> isinstance ?e ''Exception''"
    using sonar_down_result[of "PStr ''k''"]
    by (simp add: sonar_down_def isinstance_def AgentError_def)
  from failed_clone_leaves_one_error[OF clone no_path key sonar] down
  show ?thesis by (auto simp: AgentError_def)
qed

section \<open>Properties: a node that raises\<close>

text \<open>
  Claim C7 fails on the code. After a failed clone and a coverage check that reports 60
  against the threshold 90, the analysis node is applied to a state without
  \<open>repo_path\<close> and raises \<open>KeyError\<close> instead of returning a mapping: the run is
  aborted in \<open>analyze_code\<close>.
\<close>

theorem analyze_code_node_raises_KeyError:
  "invoke 5 (create_workflow_graph (scenario_env (Some clone_failure) (sonar_reports 60)))
     (state0 90)
   = Some (Inl (KeyError ''repo_path''),
           [''clone_repository'', ''check_coverage'', ''analyze_code''])"
proof -
  let ?pf = "[''errors'' \<mapsto> PList [PStr ''Failed to clone repository: no route to host''],
              ''status'' \<mapsto> PStr ''failed'', ''current_step'' \<mapsto> PStr ''clone'']"
  let ?p1 = "[''coverage_before'' \<mapsto> PFloat 60,
              ''coverage_metrics'' \<mapsto> PDict [(''coverage'', PFloat 60)],
              ''uncovered_files'' \<mapsto> PList [], ''current_step'' \<mapsto> PStr ''check_coverage'']"
  have clone: "clone_repository_node (scenario_env (Some clone_failure) (sonar_reports 60))
      (state0 90) = Inr ?pf"
    by (rule clone_node_fails) simp_all
  have check: "check_coverage_node (scenario_env (Some clone_failure) (sonar_reports 60))
      (merge (state0 90) ?pf) = Inr ?p1"
    by (rule check_node_reports) (simp_all add: merge_def)
  have route: "should_generate_tests (merge (merge (state0 90) ?pf) ?p1) = Inr ''analyze_code''"
    by (simp add: router_numeric[where c = "PFloat 60" and t = "PInt 90"] merge_def)
  have analyze: "analyze_code_node (scenario_env (Some clone_failure) (sonar_reports 60))
      (merge (merge (state0 90) ?pf) ?p1) = Inl (KeyError ''repo_path'')"
    by (rule analyze_node_missing_repo_path[where cfg = cfg0]) (simp_all add: merge_def)
  show ?thesis
    unfolding five by (rule invoke_aborts_in_analysis[OF clone check route analyze])
qed

section \<open>Properties: the outcome the runner reports\<close>

text \<open>
  Claim C10. The runner records \<open>SUCCESS\<close> exactly when the final state's \<open>status\<close> is
  not the string \<open>failed\<close> (a run aborted by an exception has no final state and is
  recorded \<open>FAILED\<close>). In particular a run that ends after the coverage check, in which
  no node wrote a \<open>status\<close> key, is recorded \<open>SUCCESS\<close>; and when the state holds the
  status \<open>failed\<close> of an earlier node and \<open>create_pr\<close> returns the status \<open>success\<close>,
  the run ends with the overwritten status and is recorded \<open>SUCCESS\<close>.
\<close>

theorem runner_reports_success_unless_status_failed:
  "((wf_status (record_result final entry) = WF_SUCCESS)
      = (final ''status'' \<noteq> Some (PStr ''failed'')))
   \<and> (invoke fuel (create_workflow_graph ev) (initial_state request now_iso wid)
         = Some (Inr final, trace) \<longrightarrow>
        run_workflow_background fuel ev now_iso wid request entry
         = Some (None, record_result final (entry\<lparr>wf_status := WF_RUNNING\<rparr>)))
   \<and> (invoke fuel (create_workflow_graph ev) (initial_state request now_iso wid)
         = Some (Inl e, trace) \<and> isinstance e ''Exception'' \<longrightarrow>
        (\<exists>entry'. run_workflow_background fuel ev now_iso wid request entry
                     = Some (None, entry') \<and> wf_status entry' = WF_FAILED))
   \<and> (clone_repository_node ev s0 = Inr p0
        \<and> check_coverage_node ev (merge s0 p0) = Inr p1
        \<and> should_generate_tests (merge (merge s0 p0) p1) = Inr ''end''
        \<and> s0 ''status'' = None \<and> p0 ''status'' = None \<and> p1 ''status'' = None \<longrightarrow>
        invoke (Suc (Suc fuel)) (create_workflow_graph ev) s0
          = Some (Inr (merge (merge s0 p0) p1), [''clone_repository'', ''check_coverage''])
        \<and> wf_status (record_result (merge (merge s0 p0) p1) entry) = WF_SUCCESS)
   \<and> (s ''status'' = Some (PStr ''failed'')
        \<and> create_pr_node ev s = Inr p \<and> p ''status'' = Some (PStr ''success'') \<longrightarrow>
        exec (Suc fuel) (create_workflow_graph ev) (Node ''create_pr'') s tr
          = Some (Inr (merge s p), tr @ [''create_pr''])
        \<and> wf_status (record_result (merge s p) entry) = WF_SUCCESS)"
proof -
  have status: "(wf_status (record_result final entry) = WF_SUCCESS)
      = (final ''status'' \<noteq> Some (PStr ''failed''))" for final entry
    by (cases "final ''status''") (simp_all add: record_result_def get_default_def)
  have ended: "run_workflow_background fuel ev now_iso wid request entry
         = Some (None, record_result final (entry\<lparr>wf_status := WF_RUNNING\<rparr>))"
    if "invoke fuel (create_workflow_graph ev) (initial_state request now_iso wid)
         = Some (Inr final, trace)"
    using that by (simp add: run_workflow_background_def)
  have aborted: "\<exists>entry'. run_workflow_background fuel ev now_iso wid request entry
                     = Some (None, entry') \<and> wf_status entry' = WF_FAILED"
    if "invoke fuel (create_workflow_graph ev) (initial_state request now_iso wid)
         = Some (Inl e, trace) \<and> isinstance e ''Exception''"
    using that by (simp add: run_workflow_background_def record_exception_def)
  have early: "invoke (Suc (Suc fuel)) (create_workflow_graph ev) s0
          = Some (Inr (merge (merge s0 p0) p1), [''clone_repository'', ''check_coverage''])
        \<and> wf_status (record_result (merge (merge s0 p0) p1) entry) = WF_SUCCESS"
    if h: "clone_repository_node ev s0 = Inr p0
        \<and> check_coverage_node ev (merge s0 p0) = Inr p1
        \<and> should_generate_tests (merge (merge s0 p0) p1) = Inr ''end''
        \<and> s0 ''status'' = None \<and> p0 ''status'' = None \<and> p1 ''status'' = None"
  proof -
    from h have "merge (merge s0 p0) p1 ''status'' = None"
      by (simp add: merge_def map_add_def)
    then have "wf_status (record_result (merge (merge s0 p0) p1) entry) = WF_SUCCESS"
      by (simp add: status)
    with h invoke_ends_after_check[of ev s0 p0 p1 fuel] show ?thesis by simp
  qed
  have overwrite: "exec (Suc fuel) (create_workflow_graph ev) (Node ''create_pr'') s tr
          = Some (Inr (merge s p), tr @ [''create_pr''])
        \<and> wf_status (record_result (merge s p) entry) = WF_SUCCESS"
    if h: "s ''status'' = Some (PStr ''failed'')
        \<and> create_pr_node ev s = Inr p \<and> p ''status'' = Some (PStr ''success'')"
  proof -
    from h have "merge s p ''status'' = Some (PStr ''success'')"
      by (simp add: merge_def map_add_def)
    then have "wf_status (record_result (merge s p) entry) = WF_SUCCESS"
      by (simp add: status)
    with h show ?thesis by (simp add: step_create_pr)
  qed
  from status[of final entry] ended aborted early overwrite show ?thesis by blast
qed

theorem runner_reports_success_unless_status_failed_witness:
  "map_option (\<lambda>r. wf_status (snd r))
      (run_workflow_background 5 (scenario_env None (sonar_reports 95))
         ''2024-01-01T00:00:00'' ''w1'' (request0 90) entry0)
     = Some WF_SUCCESS
   \<and> map_option (\<lambda>r. wf_status (snd r))
      (run_workflow_background 5 (review_env sonar_down)
         ''2024-01-01T00:00:00'' ''w1'' (request0 90) entry0)
     = Some WF_SUCCESS
   \<and> map_option (\<lambda>r. wf_errors (snd r))
      (run_workflow_background 5 (review_env sonar_down)
         ''2024-01-01T00:00:00'' ''w1'' (request0 90) entry0)
     = Some (Some (PList [PStr ''SonarQube API error: Failed to fetch metrics: timed out'']))"
proof -
  let ?p0 = "[''repo_path'' \<mapsto> PStr ''workspaces/r'', ''current_step'' \<mapsto> PStr ''clone'',
              ''repository_id'' \<mapsto> PStr ''r'']"
  let ?p1 = "[''coverage_before'' \<mapsto> PFloat 95,
              ''coverage_metrics'' \<mapsto> PDict [(''coverage'', PFloat 95)],
              ''uncovered_files'' \<mapsto> PList [], ''current_step'' \<mapsto> PStr ''check_coverage'']"
  let ?pd = "[''errors'' \<mapsto>
                PList [PStr ''SonarQube API error: Failed to fetch metrics: timed out''],
              ''status'' \<mapsto> PStr ''failed'', ''current_step'' \<mapsto> PStr ''check_coverage'']"
  let ?p2 = "[''test_candidates'' \<mapsto> PList [], ''current_step'' \<mapsto> PStr ''analyze_code'']"
  let ?p3 = "[''generated_tests'' \<mapsto> PList [], ''test_files'' \<mapsto> PList [],
              ''current_step'' \<mapsto> PStr ''generate_tests'']"
  let ?p4 = "[''branch_name'' \<mapsto> PStr ''coverage-improvement-20240101-000000'',
              ''pr_id'' \<mapsto> PInt 7, ''pr_url'' \<mapsto> PStr ''https://h/pr/7'',
              ''status'' \<mapsto> PStr ''success'', ''current_step'' \<mapsto> PStr ''create_pr'']"
  let ?A = "scenario_env None (sonar_reports 95)"
  let ?B = "review_env sonar_down"
  let ?fa = "merge (merge (state0 90) ?p0) ?p1"
  let ?s4 = "merge (merge (merge (merge (state0 90) ?p0) ?pd) ?p2) ?p3"
  let ?fb = "merge ?s4 ?p4"
  note claim = runner_reports_success_unless_status_failed
  have init: "initial_state (request0 90) ''2024-01-01T00:00:00'' ''w1'' = state0 90"
    by (simp add: state0_def)
  \<comment> \<open>the run that ends after the coverage check\<close>
  have a0: "clone_repository_node ?A (state0 90) = Inr ?p0"
    by (rule clone_node_fresh_ok) simp_all
  have a1: "check_coverage_node ?A (merge (state0 90) ?p0) = Inr ?p1"
    by (rule check_node_reports) (simp_all add: merge_def)
  have ar: "should_generate_tests ?fa = Inr ''end''"
    by (simp add: router_numeric[where c = "PFloat 95" and t = "PInt 90"] merge_def)
  from claim[where ev = ?A and ?s0.0 = "state0 90" and ?p0.0 = ?p0 and ?p1.0 = ?p1
      and fuel = "Suc (Suc (Suc 0))" and entry = "entry0\<lparr>wf_status := WF_RUNNING\<rparr>"]
    a0 a1 ar
  have arun: "invoke 5 (create_workflow_graph ?A) (state0 90)
      = Some (Inr ?fa, [''clone_repository'', ''check_coverage''])"
    and asucc: "wf_status (record_result ?fa (entry0\<lparr>wf_status := WF_RUNNING\<rparr>)) = WF_SUCCESS"
    by (simp_all add: five)
  from claim[where ev = ?A and fuel = 5 and request = "request0 90"
      and now_iso = "''2024-01-01T00:00:00''" and wid = "''w1''" and final = ?fa
      and trace = "[''clone_repository'', ''check_coverage'']" and entry = entry0] arun
  have abg: "run_workflow_background 5 ?A ''2024-01-01T00:00:00'' ''w1'' (request0 90) entry0
      = Some (None, record_result ?fa (entry0\<lparr>wf_status := WF_RUNNING\<rparr>))"
    by (simp add: init)
  \<comment> \<open>the run whose last node overwrites the status\<close>
  have b0: "clone_repository_node ?B (state0 90) = Inr ?p0"
    by (rule clone_node_git_ok) simp_all
  have b1: "check_coverage_node ?B (merge (state0 90) ?p0) = Inr ?pd"
    by (rule check_node_down) (simp_all add: merge_def)
  have br: "should_generate_tests (merge (merge (state0 90) ?p0) ?pd) = Inr ''analyze_code''"
    by (simp add: should_generate_tests_def get_default_def merge_def)
  have b2: "analyze_code_node ?B (merge (merge (state0 90) ?p0) ?pd) = Inr ?p2"
    by (rule analyze_node_ok) (simp_all add: merge_def)
  have b3: "generate_tests_node ?B (merge (merge (merge (state0 90) ?p0) ?pd) ?p2) = Inr ?p3"
    by (rule generate_node_ok) (simp_all add: merge_def)
  have b4: "create_pr_node ?B ?s4 = Inr ?p4"
    by (rule create_pr_node_ok) (simp_all add: merge_def)
  have failed_before: "?s4 ''status'' = Some (PStr ''failed'')"
    by (simp add: merge_def)
  have brun: "invoke 5 (create_workflow_graph ?B) (state0 90)
      = Some (Inr ?fb, [''clone_repository'', ''check_coverage'', ''analyze_code'',
                        ''generate_tests'', ''create_pr''])"
    unfolding five by (rule invoke_runs_all_nodes[OF b0 b1 br b2 b3 b4])
  from claim[where ev = ?B and s = ?s4 and p = ?p4
      and entry = "entry0\<lparr>wf_status := WF_RUNNING\<rparr>"] failed_before b4
  have bsucc: "wf_status (record_result ?fb (entry0\<lparr>wf_status := WF_RUNNING\<rparr>)) = WF_SUCCESS"
    by simp
  from claim[where ev = ?B and fuel = 5 and request = "request0 90"
      and now_iso = "''2024-01-01T00:00:00''" and wid = "''w1''" and final = ?fb
      and trace = "[''clone_repository'', ''check_coverage'', ''analyze_code'',
                        ''generate_tests'', ''create_pr'']" and entry = entry0] brun
  have bbg: "run_workflow_background 5 ?B ''2024-01-01T00:00:00'' ''w1'' (request0 90) entry0
      = Some (None, record_result ?fb (entry0\<lparr>wf_status := WF_RUNNING\<rparr>))"
    by (simp add: init)
  have berr: "wf_errors (record_result ?fb (entry0\<lparr>wf_status := WF_RUNNING\<rparr>))
      = Some (PList [PStr ''SonarQube API error: Failed to fetch metrics: timed out''])"
    by (simp add: record_result_def get_default_def merge_def)
  show ?thesis
    unfolding abg bbg using asucc bsucc berr by simp
qed

end
